theory Spec2Isabelle
  imports Complex_Main "HOL-Library.Multiset"
begin

section \<open>Shared vocabulary\<close>

text \<open>
  Mongo object ids and dates are natural numbers. A nullable date field
  (\<open>paidAt\<close>, \<open>deletedAt\<close>, \<open>paidInFullAt\<close>) is an \<open>option\<close>.
\<close>

type_synonym oid = nat
type_synonym date = nat

subsection \<open>JavaScript numbers\<close>

text \<open>
  A JavaScript number is an IEEE 754 double: a finite value, taken as the real number
  it denotes, one of the two infinities, or \<open>NaN\<close>. The sign of zero is not kept: the
  handlers below add, multiply, compare and print numbers and divide by the constant
  100 only, and none of these tells the two zeros apart.
\<close>

datatype number = Num real | PInfinity | NInfinity | NaN

text \<open>\<open>ilog2 n\<close> is the position of the leading bit of \<open>n\<close>, for \<open>n\<close> at least 1.\<close>

fun ilog2 :: "nat \<Rightarrow> nat" where
  "ilog2 n = (if n < 2 then 0 else Suc (ilog2 (n div 2)))"

declare ilog2.simps [simp del]

text \<open>The binary exponent of a real that is not zero: \<open>2 ^ e \<le> \<bar>x\<bar> < 2 ^ (e + 1)\<close>.\<close>

definition exponent :: "real \<Rightarrow> int" where
  "exponent x =
     (if 1 \<le> \<bar>x\<bar> then int (ilog2 (nat \<lfloor>\<bar>x\<bar>\<rfloor>))
      else - int (ilog2 (nat (\<lceil>1 / \<bar>x\<bar>\<rceil> - 1))) - 1)"

definition pow2 :: "int \<Rightarrow> real" where
  "pow2 e = (if 0 \<le> e then 2 ^ nat e else 1 / 2 ^ nat (- e))"

definition round_half_even :: "real \<Rightarrow> int" where
  "round_half_even y =
     (let n = \<lfloor>y\<rfloor>; d = y - of_int n
      in if d < 1 / 2 then n else if 1 / 2 < d then n + 1 else if even n then n else n + 1)"

text \<open>
  The double nearest to a real, ties to the even significand: 53 significant bits, the
  least exponent \<open>-1022\<close> (below it the spacing stays \<open>2 ^ -1074\<close>), and an infinity
  when the rounded value reaches \<open>2 ^ 1024\<close>. This is the result of every arithmetic
  operation on finite numbers, and of reading a decimal numeral.
\<close>

definition to_double :: "real \<Rightarrow> number" where
  "to_double x =
     (let q = max (exponent x) (- 1022) - 52;
          r = of_int (round_half_even (x / pow2 q)) * pow2 q
      in if \<bar>r\<bar> < pow2 1024 then Num r else if 0 < x then PInfinity else NInfinity)"

text \<open>\<open>a + b\<close>, \<open>a * b\<close> and \<open>a / b\<close> on numbers.\<close>

fun js_add :: "number \<Rightarrow> number \<Rightarrow> number" where
  "js_add (Num x) (Num y) = to_double (x + y)"
| "js_add NaN b = NaN"
| "js_add a NaN = NaN"
| "js_add PInfinity NInfinity = NaN"
| "js_add NInfinity PInfinity = NaN"
| "js_add PInfinity b = PInfinity"
| "js_add NInfinity b = NInfinity"
| "js_add a PInfinity = PInfinity"
| "js_add a NInfinity = NInfinity"

fun js_mul :: "number \<Rightarrow> number \<Rightarrow> number" where
  "js_mul (Num x) (Num y) = to_double (x * y)"
| "js_mul NaN b = NaN"
| "js_mul a NaN = NaN"
| "js_mul (Num x) PInfinity = (if x = 0 then NaN else if 0 < x then PInfinity else NInfinity)"
| "js_mul (Num x) NInfinity = (if x = 0 then NaN else if 0 < x then NInfinity else PInfinity)"
| "js_mul PInfinity (Num y) = (if y = 0 then NaN else if 0 < y then PInfinity else NInfinity)"
| "js_mul NInfinity (Num y) = (if y = 0 then NaN else if 0 < y then NInfinity else PInfinity)"
| "js_mul PInfinity PInfinity = PInfinity"
| "js_mul PInfinity NInfinity = NInfinity"
| "js_mul NInfinity PInfinity = NInfinity"
| "js_mul NInfinity NInfinity = PInfinity"

fun js_div :: "number \<Rightarrow> number \<Rightarrow> number" where
  "js_div (Num x) (Num y) =
     (if y = 0 then (if x = 0 then NaN else if 0 < x then PInfinity else NInfinity)
      else to_double (x / y))"
| "js_div NaN b = NaN"
| "js_div a NaN = NaN"
| "js_div (Num x) b = Num 0"
| "js_div PInfinity (Num y) = (if 0 \<le> y then PInfinity else NInfinity)"
| "js_div NInfinity (Num y) = (if 0 \<le> y then NInfinity else PInfinity)"
| "js_div a b = NaN"

text \<open>
  \<open>v || d\<close> for a number \<open>v\<close> that may be missing: \<open>undefined\<close>, 0 and \<open>NaN\<close> are
  falsy. A missing number in arithmetic is \<open>NaN\<close>. \<open>v && v > 0\<close>.
\<close>

definition js_or :: "number option \<Rightarrow> number \<Rightarrow> number" where
  "js_or v d = (case v of None \<Rightarrow> d | Some n \<Rightarrow> if n = Num 0 \<or> n = NaN then d else n)"

definition number_of :: "number option \<Rightarrow> number" where
  "number_of v = (case v of None \<Rightarrow> NaN | Some n \<Rightarrow> n)"

definition js_positive :: "number \<Rightarrow> bool" where
  "js_positive v = (case v of Num x \<Rightarrow> 0 < x | PInfinity \<Rightarrow> True | NInfinity \<Rightarrow> False | NaN \<Rightarrow> False)"

text \<open>
  \<open>+x.toFixed(digits)\<close>, the number read back from the string \<open>toFixed\<close> prints: for a
  finite \<open>x\<close> below \<open>10 ^ 21\<close> in magnitude the string is the decimal \<open>n / 10 ^ digits\<close>
  with the integer \<open>n\<close> nearest to \<open>x * 10 ^ digits\<close>, the larger one of two equally
  near, the sign treated apart; it is exact for the value of the double, and reading
  it back rounds it to a double. From \<open>10 ^ 21\<close> on, and for the infinities and
  \<open>NaN\<close>, the string is that of the number itself.
\<close>

definition toFixed :: "nat \<Rightarrow> number \<Rightarrow> number" where
  "toFixed digits v =
     (case v of
        Num x \<Rightarrow>
          if 10 ^ 21 \<le> \<bar>x\<bar> then Num x
          else if x < 0 then to_double (- (of_int \<lfloor>(- x) * 10 ^ digits + 1 / 2\<rfloor> / 10 ^ digits))
          else to_double (of_int \<lfloor>x * 10 ^ digits + 1 / 2\<rfloor> / 10 ^ digits)
      | PInfinity \<Rightarrow> PInfinity
      | NInfinity \<Rightarrow> NInfinity
      | NaN \<Rightarrow> NaN)"

text \<open>
  What a handler does with \<open>res\<close> and \<open>next\<close>. The responders of
  \<open>components/utils\<close> are taken as they are named, each a constructor carrying its argument:
  \<open>utils.respondWithError(res)(msg)\<close>, \<open>utils.respondWithResult(res)(obj)\<close>,
  \<open>utils.respondWithSuccess(res)(msg)\<close>, \<open>utils.handleEntityNotFound(res)\<close>,
  \<open>utils.handleError(next)(err)\<close>, and the direct \<open>res.status(200).json({message, payment})\<close>.
\<close>

datatype js_error =
    ValidationError "(string \<times> string) list"
  | TypeError
  | StripeError string

datatype 'a response =
    RespondWithError string
  | RespondWithResult 'a
  | RespondWithSuccess string
  | HandleEntityNotFound
  | HandleError js_error
  | Status200 string 'a

fun is_error_response :: "'a response \<Rightarrow> bool" where
  "is_error_response (RespondWithError m) = True"
| "is_error_response (HandleError e) = True"
| "is_error_response HandleEntityNotFound = True"
| "is_error_response (RespondWithResult x) = False"
| "is_error_response (RespondWithSuccess m) = False"
| "is_error_response (Status200 m x) = False"

section \<open>Horse: the ownership validator\<close>

text \<open>\<open>owner.schema.js\<close>: a user and the percentage of the horse (or invoice) it carries.\<close>

record owner =
  o_user :: oid
  percentage :: number

text \<open>
  \<open>horse.model.js\<close>. Of the schema the required paths and the paths the controller
  reads are kept (\<open>avatar\<close>, \<open>registrations\<close> and the descriptive strings play no part
  in a save being accepted). A required path that is missing is \<open>None\<close>.
\<close>

record horse =
  h_id :: oid
  h_barnName :: "string option"
  h_showName :: "string option"
  h_gender :: "string option"
  h_owners :: "owner list"
  h_leasedTo :: "oid option"
  h_trainer :: "oid option"
  h_createdBy :: "oid option"

text \<open>
  The validator on path \<open>_owners\<close>: \<open>owners.reduce\<close> adds the percentages to 0 from
  left to right, each addition rounded to a double; the function returns
  \<open>sum === 100\<close> when the array is not empty, and falls off its end (\<open>undefined\<close>, here
  \<open>None\<close>) when it is.
\<close>

definition owners_sum :: "owner list \<Rightarrow> number" where
  "owners_sum owners =
     foldl (\<lambda>accumulator currentValue. js_add accumulator (percentage currentValue)) (Num 0) owners"

definition owners_validator :: "owner list \<Rightarrow> bool option" where
  "owners_validator owners =
     (if length owners \<noteq> 0 then Some (owners_sum owners = Num 100) else None)"

text \<open>
  Mongoose: a validator that returns \<open>undefined\<close> or a truthy value passes, any other
  result fails with the message given to \<open>validate\<close>.
\<close>

definition validator_passes :: "bool option \<Rightarrow> bool" where
  "validator_passes r = (case r of None \<Rightarrow> True | Some b \<Rightarrow> b)"

definition required_error :: "string \<Rightarrow> 'a option \<Rightarrow> (string \<times> string) list" where
  "required_error path v = (case v of None \<Rightarrow> [(path, ''required'')] | Some x \<Rightarrow> [])"

definition horse_validation_errors :: "horse \<Rightarrow> (string \<times> string) list" where
  "horse_validation_errors h =
     required_error ''barnName'' (h_barnName h) @
     required_error ''showName'' (h_showName h) @
     required_error ''gender'' (h_gender h) @
     (if validator_passes (owners_validator (h_owners h)) then []
      else [(''_owners'', ''Ownership must total 100%'')]) @
     required_error ''_trainer'' (h_trainer h) @
     required_error ''_createdBy'' (h_createdBy h)"

text \<open>
  \<open>horse.save()\<close> and \<open>Horse.create\<close>: the document is validated, and written to the
  collection only when no validator failed; otherwise the promise is rejected with the
  \<open>ValidationError\<close> and the collection is as it was.
\<close>

type_synonym horses = "oid \<rightharpoonup> horse"

definition horse_save :: "horses \<Rightarrow> horse \<Rightarrow> js_error + horses" where
  "horse_save hs h =
     (case horse_validation_errors h of
        [] \<Rightarrow> Inr (hs(h_id h \<mapsto> h))
      | e # es \<Rightarrow> Inl (ValidationError (e # es)))"

subsection \<open>The three handlers of \<open>horse.controller.js\<close> that write a horse\<close>

text \<open>
  The sanitized request body. \<open>_owner\<close> is what an old client sends: the dummy owner
  \<open>'multipleOwners'\<close> or a user. \<open>_leasedTo\<close> is absent, \<open>null\<close> or a user. Of
  \<open>registrations\<close> (name and number) only the presence matters here: create calls
  \<open>newHorse.registrations.forEach\<close> without a guard.
\<close>

datatype owner_ref = MultipleOwners | OwnerUser oid

datatype 'a js_field = Absent | Null | Present 'a

record horse_body =
  hb_owner :: "owner_ref option"
  hb_barnName :: "string option"
  hb_showName :: "string option"
  hb_gender :: "string option"
  hb_owners :: "owner list option"
  hb_leasedTo :: "oid js_field"
  hb_trainer :: "oid option"
  hb_registrations :: "(string \<times> string) list option"

datatype horse_notification = LesseeAdded oid | LesseeRemoved oid

text \<open>
  The horses, the ids of the users that exist (all that the horse handlers need of a
  user), and the notifications created.
\<close>

record horse_db =
  horses :: horses
  horse_users :: "oid set"
  horse_notifications :: "horse_notification list"

definition backwardsCompatibilityError :: string where
  "backwardsCompatibilityError =
     ''An important update to this app has been released, please upgrade before using this feature.''"

text \<open>
  \<open>create\<close>: \<open>fresh\<close> is the id Mongo gives the new document, \<open>user\<close> is \<open>req.user\<close>.
  A body without \<open>registrations\<close> is a \<open>TypeError\<close> before anything is saved.
\<close>

definition horse_create :: "oid \<Rightarrow> oid \<Rightarrow> horse_body \<Rightarrow> horse_db \<Rightarrow> horse_db \<times> horse response" where
  "horse_create fresh user body db =
     (if hb_owner body \<noteq> None then (db, RespondWithError backwardsCompatibilityError)
      else if hb_registrations body = None then (db, HandleError TypeError)
      else
        let newHorse = \<lparr> h_id = fresh, h_barnName = hb_barnName body, h_showName = hb_showName body,
                         h_gender = hb_gender body,
                         h_owners = (case hb_owners body of None \<Rightarrow> [] | Some os \<Rightarrow> os),
                         h_leasedTo = (case hb_leasedTo body of Present u \<Rightarrow> Some u | _ \<Rightarrow> None),
                         h_trainer = hb_trainer body, h_createdBy = Some user \<rparr>
        in case horse_save (horses db) newHorse of
             Inl err \<Rightarrow> (db, HandleError err)
           | Inr hs \<Rightarrow> (db\<lparr>horses := hs\<rparr>, RespondWithResult newHorse))"

text \<open>\<open>_.assign(horse, updatedHorse)\<close>: every attribute present in the body overwrites.\<close>

definition horse_assign :: "horse \<Rightarrow> horse_body \<Rightarrow> horse" where
  "horse_assign h body =
     h\<lparr> h_barnName := (case hb_barnName body of None \<Rightarrow> h_barnName h | Some v \<Rightarrow> Some v),
        h_showName := (case hb_showName body of None \<Rightarrow> h_showName h | Some v \<Rightarrow> Some v),
        h_gender := (case hb_gender body of None \<Rightarrow> h_gender h | Some v \<Rightarrow> Some v),
        h_owners := (case hb_owners body of None \<Rightarrow> h_owners h | Some v \<Rightarrow> v),
        h_leasedTo := (case hb_leasedTo body of Absent \<Rightarrow> h_leasedTo h | Null \<Rightarrow> None | Present u \<Rightarrow> Some u),
        h_trainer := (case hb_trainer body of None \<Rightarrow> h_trainer h | Some v \<Rightarrow> Some v) \<rparr>"

definition userIsEditingSingleOwner :: "oid \<Rightarrow> horse \<Rightarrow> bool" where
  "userIsEditingSingleOwner updatedOwner originalHorse =
     (case h_owners originalHorse of
        [o1] \<Rightarrow> updatedOwner \<noteq> o_user o1
      | _ \<Rightarrow> False)"

text \<open>
  The notifications of a changed lessee, each with its recipient. When one lessee
  replaces another, the recipient of the second notification is read from
  \<open>horse._leasedTo\<close> after \<open>_.assign\<close>, which by then is the new lessee.
\<close>

definition lessee_notifications :: "oid option \<Rightarrow> oid option \<Rightarrow> horse_notification list" where
  "lessee_notifications oldLesseeId newLesseeId =
     (case (oldLesseeId, newLesseeId) of
        (Some old, Some new) \<Rightarrow> (if old \<noteq> new then [LesseeAdded new, LesseeRemoved new] else [])
      | (None, Some new) \<Rightarrow> [LesseeAdded new]
      | (Some old, None) \<Rightarrow> [LesseeRemoved old]
      | (None, None) \<Rightarrow> [])"

text \<open>
  \<open>getDummyOwner\<close> of the populated horse reads the name of every owner when there is
  more than one: a \<open>TypeError\<close> when one of these users is gone.
\<close>

definition getDummyOwner_throws :: "horse_db \<Rightarrow> horse \<Rightarrow> bool" where
  "getDummyOwner_throws db h =
     (1 < length (h_owners h) \<and> \<not> list_all (\<lambda>owner. o_user owner \<in> horse_users db) (h_owners h))"

text \<open>
  \<open>update\<close>: the old-client checks read \<open>horse._owners\<close> before the handler tests
  \<open>if (horse)\<close>, so a missing horse with a real \<open>_owner\<close> in the body is a \<open>TypeError\<close>.
  After the save and the notifications the horse is read back and answered with its
  dummy owner.
\<close>

definition horse_update :: "oid \<Rightarrow> horse_body \<Rightarrow> horse_db \<Rightarrow> horse_db \<times> horse response" where
  "horse_update hid body db =
     (case (hb_owner body, horses db hid) of
        (Some (OwnerUser u), None) \<Rightarrow> (db, HandleError TypeError)
      | (_, None) \<Rightarrow> (db, HandleEntityNotFound)
      | (owner_field, Some horse) \<Rightarrow>
          (if (case owner_field of
                 Some (OwnerUser u) \<Rightarrow>
                   length (h_owners horse) \<noteq> 1 \<or> userIsEditingSingleOwner u horse
               | _ \<Rightarrow> False)
           then (db, RespondWithError backwardsCompatibilityError)
           else
             let oldLesseeId = h_leasedTo horse;
                 newLesseeId = (case hb_leasedTo body of Present u \<Rightarrow> Some u | _ \<Rightarrow> None);
                 horse' = horse_assign horse body
             in case horse_save (horses db) horse' of
                  Inl err \<Rightarrow> (db, HandleError err)
                | Inr hs \<Rightarrow>
                    (db\<lparr> horses := hs,
                         horse_notifications :=
                           horse_notifications db @ lessee_notifications oldLesseeId newLesseeId \<rparr>,
                     if getDummyOwner_throws db horse' then HandleError TypeError
                     else RespondWithResult horse')))"

text \<open>
  \<open>updateMultipleOwners\<close>: the save is not awaited, so a rejected save changes nothing
  and the handler still answers with the horse it reads back.
\<close>

definition horse_updateMultipleOwners :: "oid \<Rightarrow> owner list \<Rightarrow> horse_db \<Rightarrow> horse_db \<times> horse response" where
  "horse_updateMultipleOwners hid sanitizedObject db =
     (case horses db hid of
        None \<Rightarrow> (db, HandleEntityNotFound)
      | Some horse \<Rightarrow>
          (case horse_save (horses db) (horse\<lparr>h_owners := sanitizedObject\<rparr>) of
             Inl err \<Rightarrow> (db, RespondWithResult horse)
           | Inr hs \<Rightarrow> (db\<lparr>horses := hs\<rparr>, RespondWithResult (horse\<lparr>h_owners := sanitizedObject\<rparr>))))"

datatype horse_request =
    HorseCreate oid oid horse_body
  | HorseUpdate oid horse_body
  | HorseUpdateMultipleOwners oid "owner list"

fun horse_handle :: "horse_request \<Rightarrow> horse_db \<Rightarrow> horse_db \<times> horse response" where
  "horse_handle (HorseCreate fresh user body) db = horse_create fresh user body db"
| "horse_handle (HorseUpdate hid body) db = horse_update hid body db"
| "horse_handle (HorseUpdateMultipleOwners hid os) db = horse_updateMultipleOwners hid os db"

definition owners_total_100 :: "horse \<Rightarrow> bool" where
  "owners_total_100 h = (h_owners h = [] \<or> owners_sum (h_owners h) = Num 100)"

text \<open>The owners a request asks to be stored, when it names any.\<close>

fun requested_owners :: "horse_request \<Rightarrow> owner list option" where
  "requested_owners (HorseCreate fresh user body) = hb_owners body"
| "requested_owners (HorseUpdate hid body) = hb_owners body"
| "requested_owners (HorseUpdateMultipleOwners hid os) = Some os"

section \<open>Requests, invoices, payments and users\<close>

text \<open>\<open>request.model.js\<close>. A service line: \<open>quantity || 1\<close> reads a missing or zero quantity as 1.\<close>

record service =
  s_service :: string
  s_rate :: number
  s_quantity :: "number option"

definition quantity_or_1 :: "service \<Rightarrow> number" where
  "quantity_or_1 s = js_or (s_quantity s) (Num 1)"

text \<open>
  Of the request schema: the paths the handlers below read or write. The paths that
  \<open>_.assign\<close> only copies (\<open>_show\<close>, \<open>competitionClass\<close>, \<open>fromCustomInvoice\<close>,
  \<open>addedToInvoice\<close>) are represented by \<open>instructions\<close> and \<open>providerNotes\<close>,
  which are copied the same way.
\<close>

record request =
  r_id :: oid
  r_date :: date
  r_horse :: oid
  r_horseManager :: oid
  r_serviceProvider :: oid
  r_reassignedTo :: "oid option"
  r_previousReassignees :: "oid list"
  r_services :: "service list"
  r_instructions :: "string option"
  r_providerNotes :: "string option"
  r_total :: number
  r_deletedAt :: "date option"
  r_declinedAt :: "date option"
  r_acceptedAt :: "date option"
  r_paidAt :: "date option"

text \<open>\<open>invoice.model.js\<close>, the schema.\<close>

record invoice =
  i_id :: oid
  i_amount :: number
  i_tip :: "number option"
  i_paidOutsideAppAt :: "date option"
  i_paidInFullAt :: "date option"
  i_payingUsers :: "owner list"
  i_paymentApprovals :: "oid list"
  i_horse :: "oid option"
  i_requests :: "oid list"
  i_serviceProvider :: oid
  i_trainer :: oid
  i_reassignees :: "oid list"
  i_deletedAt :: "date option"

text \<open>
  \<open>payment.model.js\<close>. A transaction as the sub-schema stores it (\<open>_submittedBy\<close> is
  not a path of the sub-schema, so the value the controller pushes under that name is
  not stored).
\<close>

record transaction =
  t_transactionType :: string
  t_request :: "oid option"
  t_serviceProvider :: "oid option"
  t_payingUser :: "oid option"
  t_transferId :: string
  t_transactionId :: string
  t_transactionDate :: date

record payment =
  p_id :: oid
  p_invoice :: "oid option"
  p_serviceProvider :: oid
  p_payingUser :: "oid option"
  p_paymentSubmittedBy :: "oid option"
  p_transactions :: "transaction list"
  p_paidOutsideApp :: bool
  p_date :: date
  p_amount :: number
  p_tip :: number
  p_percentOfInvoice :: "number option"

text \<open>\<open>user.model.js\<close>: what the payment and invoice handlers read of a user.\<close>

record user =
  u_id :: oid
  u_name :: string
  u_email :: string
  u_roles :: "string list"
  u_stripeCustomerId :: "string option"
  u_stripeSellerId :: "string option"
  u_accountSetupComplete :: bool

definition HORSE_MANAGER :: string where "HORSE_MANAGER = ''horse manager''"
definition SERVICE_PROVIDER :: string where "SERVICE_PROVIDER = ''service provider''"

definition isManager :: "user \<Rightarrow> bool" where
  "isManager u = (HORSE_MANAGER \<in> set (u_roles u))"

definition isServiceProvider :: "user \<Rightarrow> bool" where
  "isServiceProvider u = (SERVICE_PROVIDER \<in> set (u_roles u))"

text \<open>
  The mails the handlers send, by subject and recipient; the pushes and in-app
  notifications, by recipients. Templates and message texts are not modelled.
\<close>

record email =
  e_subject :: string
  e_to :: "string list"
  e_bcc :: "string list"

text \<open>
  The database: collections keyed by \<open>_id\<close>; the payments in insertion order, since
  the handlers count what \<open>Payment.find\<close> returns. A reference to a document that is
  not in its collection populates as \<open>null\<close>.
\<close>

record db =
  db_requests :: "oid \<rightharpoonup> request"
  db_invoices :: "oid \<rightharpoonup> invoice"
  db_payments :: "payment list"
  db_users :: "oid \<rightharpoonup> user"
  db_horses :: "oid \<rightharpoonup> horse"
  db_emails :: "email list"
  db_notifications :: "oid list list"

text \<open>
  What \<open>populate\<close> puts in place of the references of an invoice: the service
  provider, the trainer and the horse (each \<open>null\<close> when the document is gone, the
  horse also when the invoice names none), the users of \<open>_payingUsers\<close> followed by
  the approvers of \<open>paymentApprovals\<close> (as \<open>getPayingUsers\<close> lists them), and the
  reassignees and requests that still exist.
\<close>

definition invoice_serviceProvider :: "db \<Rightarrow> invoice \<Rightarrow> user option" where
  "invoice_serviceProvider db invoice = db_users db (i_serviceProvider invoice)"

definition invoice_trainer :: "db \<Rightarrow> invoice \<Rightarrow> user option" where
  "invoice_trainer db invoice = db_users db (i_trainer invoice)"

definition invoice_horse :: "db \<Rightarrow> invoice \<Rightarrow> horse option" where
  "invoice_horse db invoice = (case i_horse invoice of None \<Rightarrow> None | Some h \<Rightarrow> db_horses db h)"

definition getPayingUsers :: "db \<Rightarrow> invoice \<Rightarrow> user option list" where
  "getPayingUsers db invoice =
     map (\<lambda>payer. db_users db (o_user payer)) (i_payingUsers invoice) @
     map (db_users db) (i_paymentApprovals invoice)"

definition invoice_reassignees :: "db \<Rightarrow> invoice \<Rightarrow> user list" where
  "invoice_reassignees db invoice = List.map_filter (db_users db) (i_reassignees invoice)"

text \<open>
  \<open>sendPushNotification(recipients, message)\<close> reads \<open>deviceIds\<close> of every recipient:
  a \<open>TypeError\<close> when one of them is \<open>null\<close>. The push itself is not modelled.
\<close>

definition sendPushNotification_throws :: "user option list \<Rightarrow> bool" where
  "sendPushNotification_throws recipients = (\<not> list_all (\<lambda>recipient. recipient \<noteq> None) recipients)"

section \<open>\<open>request.controller.js\<close>: update\<close>

text \<open>
  \<open>req.body\<close> of a request update. \<open>_serviceProvider\<close>, \<open>_horseManager\<close> and
  \<open>_reassignedTo\<close> arrive as user objects, of which the handler reads \<open>_id\<close>.
\<close>

record request_body =
  rb_id :: "oid option"
  rb_date :: "date option"
  rb_horse :: "oid option"
  rb_horseManager :: "oid option"
  rb_serviceProvider :: "oid option"
  rb_reassignedTo :: "oid js_field"
  rb_previousReassignees :: "oid list option"
  rb_services :: "service list option"
  rb_instructions :: "string option"
  rb_providerNotes :: "string option"

text \<open>
  \<open>request.save()\<close>: of the validators only \<open>services: required\<close> can fail on a stored
  request (Mongoose rejects an empty required array); the other required paths were
  set when the request was created and \<open>_.assign\<close> never unsets them.
\<close>

definition request_save :: "(oid \<rightharpoonup> request) \<Rightarrow> request \<Rightarrow> js_error + (oid \<rightharpoonup> request)" where
  "request_save rs r =
     (if r_services r = [] then Inl (ValidationError [(''services'', ''required'')])
      else Inr (rs(r_id r \<mapsto> r)))"

text \<open>
  The total of a list of services: from 0, every service adds \<open>rate * (quantity || 1)\<close>,
  the product and the sum each rounded to a double.
\<close>

definition services_total :: "service list \<Rightarrow> number" where
  "services_total services =
     foldl (\<lambda>total service. js_add total (js_mul (s_rate service) (quantity_or_1 service))) (Num 0) services"

text \<open>
  The attributes of the sanitized body after the handler has edited them
  (\<open>_previousReassignees\<close>, \<open>_reassignedTo\<close>, \<open>declinedAt\<close>, \<open>acceptedAt\<close>, \<open>total\<close>),
  assigned onto the stored document.
\<close>

definition request_assign ::
  "request \<Rightarrow> request_body \<Rightarrow> oid list option \<Rightarrow> oid js_field \<Rightarrow> bool \<Rightarrow> number \<Rightarrow> request" where
  "request_assign r body previousReassignees reassignedTo resetAnswers newTotal =
     r\<lparr> r_date := (case rb_date body of None \<Rightarrow> r_date r | Some v \<Rightarrow> v),
        r_horse := (case rb_horse body of None \<Rightarrow> r_horse r | Some v \<Rightarrow> v),
        r_horseManager := (case rb_horseManager body of None \<Rightarrow> r_horseManager r | Some v \<Rightarrow> v),
        r_serviceProvider := (case rb_serviceProvider body of None \<Rightarrow> r_serviceProvider r | Some v \<Rightarrow> v),
        r_reassignedTo := (case reassignedTo of Absent \<Rightarrow> r_reassignedTo r | Null \<Rightarrow> None | Present v \<Rightarrow> Some v),
        r_previousReassignees := (case previousReassignees of None \<Rightarrow> r_previousReassignees r | Some v \<Rightarrow> v),
        r_services := (case rb_services body of None \<Rightarrow> r_services r | Some v \<Rightarrow> v),
        r_instructions := (case rb_instructions body of None \<Rightarrow> r_instructions r | Some v \<Rightarrow> Some v),
        r_providerNotes := (case rb_providerNotes body of None \<Rightarrow> r_providerNotes r | Some v \<Rightarrow> Some v),
        r_total := newTotal,
        r_declinedAt := (if resetAnswers then None else r_declinedAt r),
        r_acceptedAt := (if resetAnswers then None else r_acceptedAt r) \<rparr>"

text \<open>
  \<open>update\<close>. \<open>paramsId\<close> is \<open>req.params.id\<close>. The original request is looked up by
  \<open>req.body._id\<close>; the request that is written is looked up by \<open>req.params.id\<close>.
  Reading a property of \<open>null\<close> or \<open>undefined\<close> is the \<open>TypeError\<close> the handler's
  \<open>catch\<close> hands to \<open>next\<close>: so for the name of the horse of the request, read before
  the request is assigned and saved, when the horse is gone. The show lookup and the
  notification that follow the save touch other collections and are left out.
\<close>

definition request_update :: "oid \<Rightarrow> request_body \<Rightarrow> db \<Rightarrow> db \<times> request response" where
  "request_update paramsId body db =
     (case (case rb_id body of None \<Rightarrow> None | Some b \<Rightarrow> db_requests db b) of
        None \<Rightarrow> (db, HandleError TypeError)
      | Some originalRequest \<Rightarrow>
          if r_paidAt originalRequest \<noteq> None
          then (db, RespondWithError ''This request has already been paid'')
          else
            (case rb_serviceProvider body of
               None \<Rightarrow> (db, HandleError TypeError)
             | Some newServiceProviderId \<Rightarrow>
                 let hasNewServiceProvider = (r_serviceProvider originalRequest \<noteq> newServiceProviderId);
                     originalReassigneeId = r_reassignedTo originalRequest;
                     newReassigneeId =
                       (case rb_reassignedTo body of
                          Present x \<Rightarrow> if x \<noteq> newServiceProviderId then Some x else None
                        | _ \<Rightarrow> None);
                     hasNewReassignee = (newReassigneeId \<noteq> None \<and> originalReassigneeId \<noteq> newReassigneeId);
                     previousReassignees =
                       (case (originalReassigneeId, rb_previousReassignees body) of
                          (Some orig, Some prev) \<Rightarrow>
                            if Some orig \<noteq> newReassigneeId \<and> orig \<notin> set prev
                            then Some (prev @ [orig]) else Some prev
                        | (_, prev) \<Rightarrow> prev);
                     hasOriginalProviderAsReassignee = (rb_reassignedTo body = Present newServiceProviderId);
                     reassignedTo = (if hasOriginalProviderAsReassignee then Null else rb_reassignedTo body);
                     resetAnswers = (hasNewServiceProvider \<or> hasNewReassignee \<or> hasOriginalProviderAsReassignee)
                 in
                 (case rb_services body of
                    None \<Rightarrow> (db, HandleError TypeError)
                  | Some services \<Rightarrow>
                      (case db_requests db paramsId of
                         None \<Rightarrow> (db, HandleEntityNotFound)
                       | Some request \<Rightarrow>
                           if db_horses db (r_horse request) = None then (db, HandleError TypeError)
                           else
                             let request' = request_assign request body previousReassignees reassignedTo
                                              resetAnswers (services_total services)
                             in (case request_save (db_requests db) request' of
                                   Inl err \<Rightarrow> (db, HandleError err)
                                 | Inr rs \<Rightarrow>
                                     (case rb_horseManager body of
                                        None \<Rightarrow> (db\<lparr>db_requests := rs\<rparr>, HandleError TypeError)
                                      | Some m \<Rightarrow> (db\<lparr>db_requests := rs\<rparr>, RespondWithResult request')))))))"

section \<open>\<open>invoice.controller.js\<close>: update and destroy\<close>

text \<open>
  \<open>Payment.find({ _invoice: x })\<close>. Mongoose casts an \<open>undefined\<close> condition to
  \<open>null\<close>, which matches the payments that have no invoice; \<open>x\<close> is an option for that.
\<close>

definition payments_of_invoice :: "db \<Rightarrow> oid option \<Rightarrow> payment list" where
  "payments_of_invoice db x = filter (\<lambda>p. p_invoice p = x) (db_payments db)"

text \<open>The request objects inside the body of an invoice update.\<close>

record request_obj =
  ro_id :: oid
  ro_services :: "service list option"

record invoice_body =
  ib_id :: "oid option"
  ib_tip :: "number option"
  ib_paidOutsideAppAt :: "date js_field"
  ib_paidInFullAt :: "date js_field"
  ib_payingUsers :: "owner list option"
  ib_paymentApprovals :: "oid list option"
  ib_horse :: "oid option"
  ib_requests :: "request_obj list option"
  ib_serviceProvider :: "oid option"
  ib_reassignees :: "oid list option"
  ib_trainer :: "oid option"

text \<open>
  One mapper of \<open>Promise.map(updatedInvoice._requests, ...)\<close>: the state is the request
  collection, \<open>newInvoiceTotal\<close>, and whether a mapper has thrown. \<open>oldRequest.save()\<close>
  is not awaited, so a rejected save only leaves the request as it was. A body request
  without \<open>services\<close> makes \<open>request.services.reduce\<close> a \<open>TypeError\<close>; the mappers of
  the other requests still run. The mappers run concurrently; the model takes them in
  the order of the array, which is the order in which the totals are added.
\<close>

definition update_request_of_invoice ::
  "(oid \<rightharpoonup> request) \<times> number \<times> bool \<Rightarrow> request_obj \<Rightarrow> (oid \<rightharpoonup> request) \<times> number \<times> bool" where
  "update_request_of_invoice st request =
     (case st of (rs, newInvoiceTotal, thrown) \<Rightarrow>
        (case rs (ro_id request) of
           None \<Rightarrow> (rs, newInvoiceTotal, thrown)
         | Some oldRequest \<Rightarrow>
             (case ro_services request of
                None \<Rightarrow> (rs, newInvoiceTotal, True)
              | Some services \<Rightarrow>
                  let oldRequest' = oldRequest\<lparr> r_services := services, r_total := services_total services \<rparr>
                  in (case request_save rs oldRequest' of
                        Inl err \<Rightarrow> (rs, js_add newInvoiceTotal (r_total oldRequest'), thrown)
                      | Inr rs' \<Rightarrow> (rs', js_add newInvoiceTotal (r_total oldRequest'), thrown)))))"

text \<open>
  \<open>_.assign(invoice, updatedInvoice)\<close>: \<open>_id\<close> is on the whitelist of the body, and
  \<open>amount\<close> is the total the handler has just computed.
\<close>

definition invoice_assign :: "invoice \<Rightarrow> invoice_body \<Rightarrow> number \<Rightarrow> invoice" where
  "invoice_assign ivc body newInvoiceTotal =
     ivc\<lparr> i_id := (case ib_id body of None \<Rightarrow> i_id ivc | Some v \<Rightarrow> v),
          i_amount := newInvoiceTotal,
          i_tip := (case ib_tip body of None \<Rightarrow> i_tip ivc | Some v \<Rightarrow> Some v),
          i_paidOutsideAppAt := (case ib_paidOutsideAppAt body of
                                  Absent \<Rightarrow> i_paidOutsideAppAt ivc | Null \<Rightarrow> None | Present v \<Rightarrow> Some v),
          i_paidInFullAt := (case ib_paidInFullAt body of
                               Absent \<Rightarrow> i_paidInFullAt ivc | Null \<Rightarrow> None | Present v \<Rightarrow> Some v),
          i_payingUsers := (case ib_payingUsers body of None \<Rightarrow> i_payingUsers ivc | Some v \<Rightarrow> v),
          i_paymentApprovals := (case ib_paymentApprovals body of None \<Rightarrow> i_paymentApprovals ivc | Some v \<Rightarrow> v),
          i_horse := (case ib_horse body of None \<Rightarrow> i_horse ivc | Some v \<Rightarrow> Some v),
          i_requests := (case ib_requests body of None \<Rightarrow> i_requests ivc | Some v \<Rightarrow> map ro_id v),
          i_serviceProvider := (case ib_serviceProvider body of None \<Rightarrow> i_serviceProvider ivc | Some v \<Rightarrow> v),
          i_reassignees := (case ib_reassignees body of None \<Rightarrow> i_reassignees ivc | Some v \<Rightarrow> v),
          i_trainer := (case ib_trainer body of None \<Rightarrow> i_trainer ivc | Some v \<Rightarrow> v) \<rparr>"

text \<open>
  \<open>invoice.save()\<close> of a stored invoice is an update of the document that has the
  \<open>_id\<close> of the document in memory; with no such document nothing is written.
\<close>

definition invoice_save :: "(oid \<rightharpoonup> invoice) \<Rightarrow> invoice \<Rightarrow> (oid \<rightharpoonup> invoice)" where
  "invoice_save ivs ivc = (if i_id ivc \<in> dom ivs then ivs(i_id ivc \<mapsto> ivc) else ivs)"

text \<open>
  \<open>update\<close>. The payments are looked up by the \<open>_id\<close> of the body, the invoice by
  \<open>req.params.id\<close>. After the save the invoice is read back under the \<open>_id\<close> it has
  after \<open>_.assign\<close> and populated; the handler then reads the \<open>_id\<close> of its service
  provider and the name of its horse and sends a push to its paying users and
  approvers, each a \<open>TypeError\<close> when the document is not there. The answer is the
  invoice read back; the totals and dates added to it for the user are not modelled.
\<close>

definition invoice_update_response :: "db \<Rightarrow> oid \<Rightarrow> invoice response" where
  "invoice_update_response db invoiceId =
     (case db_invoices db invoiceId of
        None \<Rightarrow> HandleError TypeError
      | Some populatedInvoice \<Rightarrow>
          if invoice_serviceProvider db populatedInvoice = None then HandleError TypeError
          else if invoice_horse db populatedInvoice = None then HandleError TypeError
          else if sendPushNotification_throws (getPayingUsers db populatedInvoice) then HandleError TypeError
          else RespondWithResult populatedInvoice)"

definition invoice_update :: "oid \<Rightarrow> invoice_body \<Rightarrow> db \<Rightarrow> db \<times> invoice response" where
  "invoice_update paramsId body db =
     (let invoicePayments = payments_of_invoice db (ib_id body) in
      if length invoicePayments \<noteq> 0
      then (db, RespondWithError ''Invoice cannot be updated once a payment has been made.'')
      else
        (case ib_requests body of
           None \<Rightarrow> (db, HandleError TypeError)
         | Some bodyRequests \<Rightarrow>
             (case foldl update_request_of_invoice (db_requests db, Num 0, False) bodyRequests of
                (rs, newInvoiceTotal, thrown) \<Rightarrow>
                  if thrown then (db\<lparr>db_requests := rs\<rparr>, HandleError TypeError)
                  else
                    (case db_invoices db paramsId of
                       None \<Rightarrow> (db\<lparr>db_requests := rs\<rparr>, HandleEntityNotFound)
                     | Some invoice \<Rightarrow>
                         let invoice' = invoice_assign invoice body newInvoiceTotal;
                             db' = db\<lparr> db_requests := rs, db_invoices := invoice_save (db_invoices db) invoice' \<rparr>
                         in (db', invoice_update_response db' (i_id invoice'))))))"

text \<open>
  \<open>destroy\<close>. \<open>now\<close> is \<open>new Date()\<close>, \<open>userId\<close> is \<open>req.user._id\<close>. The invoice is
  populated: a service provider that no longer exists is \<open>null\<close>, and a request that
  no longer exists is dropped from \<open>_requests\<close>. Both saves are not awaited. The push
  to the paying users and approvers comes last.
\<close>

definition mark_request_deleted :: "date \<Rightarrow> (oid \<rightharpoonup> request) \<Rightarrow> oid \<Rightarrow> (oid \<rightharpoonup> request)" where
  "mark_request_deleted now rs rid =
     (case rs rid of
        None \<Rightarrow> rs
      | Some invoiceRequest \<Rightarrow>
          (case request_save rs (invoiceRequest\<lparr>r_deletedAt := Some now\<rparr>) of
             Inl err \<Rightarrow> rs
           | Inr rs' \<Rightarrow> rs'))"

definition invoice_destroy :: "date \<Rightarrow> oid \<Rightarrow> oid \<Rightarrow> db \<Rightarrow> db \<times> invoice response" where
  "invoice_destroy now userId paramsId db =
     (case db_invoices db paramsId of
        None \<Rightarrow> (db, HandleEntityNotFound)
      | Some invoice \<Rightarrow>
          (case db_users db (i_serviceProvider invoice) of
             None \<Rightarrow> (db, HandleError TypeError)
           | Some serviceProvider \<Rightarrow>
               if u_id serviceProvider \<noteq> userId
               then (db, RespondWithError ''You are not authorized to delete this invoice.'')
               else if length (payments_of_invoice db (Some paramsId)) \<noteq> 0
               then (db, RespondWithError ''There is already a payment against this invoice.'')
               else
                 (db\<lparr> db_invoices := invoice_save (db_invoices db) (invoice\<lparr>i_deletedAt := Some now\<rparr>),
                      db_requests := foldl (mark_request_deleted now) (db_requests db) (i_requests invoice) \<rparr>,
                  if sendPushNotification_throws (getPayingUsers db invoice) then HandleError TypeError
                  else RespondWithSuccess ''Invoice successfully deleted'')))"

section \<open>\<open>payment.controller.js\<close>: create\<close>

definition currency :: string where
  "currency = ''usd''"

text \<open>\<open>ownerPercentage\<close>: the quotient and the product are each rounded to a double.\<close>

definition ownerPercentage :: "number \<Rightarrow> number \<Rightarrow> number" where
  "ownerPercentage percentOfInvoice amount = js_mul (js_div percentOfInvoice (Num 100)) amount"

text \<open>The attributes of \<open>req.body\<close> that the handler reads.\<close>

record payment_body =
  pb_invoice :: "oid option"
  pb_payingUser :: "oid option"
  pb_serviceProvider :: "oid option"
  pb_tip :: "number option"
  pb_percentOfInvoice :: "number option"
  pb_invoiceTotal :: "number option"
  pb_uuid :: "string option"

record pending_transfer =
  pt_amount :: number
  pt_currency :: string
  pt_destination :: "string option"
  pt_source_transaction :: "string option"

record charge_obj =
  co_amount :: number
  co_currency :: string
  co_customer :: "string option"
  co_receipt_email :: string

text \<open>
  Stripe and the rest of the environment of one call. \<open>stripe.charges.create\<close> throws,
  or resolves to a charge with an id and possibly a failure message (the handler also
  guards against no charge at all); the \<open>k\<close>-th \<open>stripe.transfers.create\<close> of the call
  throws (\<open>None\<close>) or resolves to a transfer with an id. \<open>SERVICE_FEE_PERCENT\<close> is the
  number the environment string converts to when it is multiplied.
\<close>

datatype charge_result = ChargeThrows string | ChargeNull | Charge string "string option"

record env =
  env_now :: date
  env_new_id :: oid
  SERVICE_FEE_PERCENT :: number
  ADMIN_EMAIL :: string
  charges_create :: "charge_obj \<Rightarrow> string option \<Rightarrow> charge_result"
  transfers_create :: "nat \<Rightarrow> pending_transfer \<Rightarrow> string option"

text \<open>
  \<open>error.message\<close>. The message of a \<open>TypeError\<close> is a text of the engine ('Cannot read
  property ... of null'); the model has the name of the error in its place.
\<close>

definition error_message :: "js_error \<Rightarrow> string" where
  "error_message e = (case e of StripeError m \<Rightarrow> m | TypeError \<Rightarrow> ''TypeError'' | ValidationError es \<Rightarrow> ''ValidationError'')"

text \<open>A string is truthy when it is there and not empty.\<close>

definition truthy :: "string option \<Rightarrow> bool" where
  "truthy v = (case v of None \<Rightarrow> False | Some str \<Rightarrow> str \<noteq> [])"

text \<open>
  The handler up to and including the check for an earlier payment of the same paying
  user: either the response it returns, or the invoice and the paying user it goes on with.
\<close>

definition create_checks :: "oid \<Rightarrow> payment_body \<Rightarrow> db \<Rightarrow> payment response + invoice \<times> user" where
  "create_checks userId body db =
     (case (case pb_invoice body of None \<Rightarrow> None | Some i \<Rightarrow> db_invoices db i) of
        None \<Rightarrow> Inl (HandleError TypeError)
      | Some invoice \<Rightarrow>
          if i_deletedAt invoice \<noteq> None then Inl (RespondWithError ''This invoice has been deleted.'')
          else
            (case pb_payingUser body of
               None \<Rightarrow> Inl (RespondWithError backwardsCompatibilityError)
             | Some payer \<Rightarrow>
                 (case db_users db payer of
                    None \<Rightarrow> Inl (RespondWithError ''Sorry, we couldn't find that user.'')
                  | Some payingUser \<Rightarrow>
                      if \<not> truthy (u_stripeCustomerId payingUser) \<or> \<not> u_accountSetupComplete payingUser
                      then Inl (RespondWithError
                             (if u_id payingUser = userId
                              then ''You need to complete your payment information in your profile before you may proceed.''
                              else u_name payingUser @ '' needs to complete their payment information in their profile before you may proceed.''))
                      else
                        let previousPaymentsForUser =
                              filter (\<lambda>p. p_invoice p = pb_invoice body \<and> p_payingUser p = pb_payingUser body)
                                (db_payments db)
                        in if length previousPaymentsForUser \<noteq> 0
                           then Inl (RespondWithError
                                  (''A payment has already been made against this invoice for '' @ u_name payingUser))
                           else Inr (invoice, payingUser))))"

text \<open>
  The tip and the amount the handler computes for the new payment, and
  \<open>Payment.create(newPayment)\<close>: \<open>_serviceProvider\<close> is required, and an \<open>amount\<close> or
  a \<open>tip\<close> that is \<open>NaN\<close> (as without \<open>percentOfInvoice\<close> or \<open>invoiceTotal\<close> in the
  body) is not cast to a number.
\<close>

definition tip_or_0 :: "number option \<Rightarrow> number" where
  "tip_or_0 t = js_or t (Num 0)"

text \<open>\<open>newPayment.percentOfInvoice\<close> as the handler uses it in arithmetic.\<close>

definition body_percentOfInvoice :: "payment_body \<Rightarrow> number" where
  "body_percentOfInvoice body = number_of (pb_percentOfInvoice body)"

definition new_payment :: "env \<Rightarrow> oid \<Rightarrow> payment_body \<Rightarrow> js_error + payment" where
  "new_payment env userId body =
     (let percentageOfTip = ownerPercentage (body_percentOfInvoice body) (tip_or_0 (pb_tip body));
          amount = ownerPercentage (body_percentOfInvoice body) (number_of (pb_invoiceTotal body));
          errors = required_error ''_serviceProvider'' (pb_serviceProvider body) @
                   (if amount = NaN then [(''amount'', ''Number'')] else []) @
                   (if percentageOfTip = NaN then [(''tip'', ''Number'')] else [])
      in case (pb_serviceProvider body, errors) of
           (Some serviceProvider, []) \<Rightarrow>
             Inr \<lparr> p_id = env_new_id env, p_invoice = pb_invoice body, p_serviceProvider = serviceProvider,
                   p_payingUser = pb_payingUser body, p_paymentSubmittedBy = Some userId,
                   p_transactions = [], p_paidOutsideApp = False, p_date = env_now env,
                   p_amount = amount, p_tip = percentageOfTip,
                   p_percentOfInvoice = pb_percentOfInvoice body \<rparr>
         | _ \<Rightarrow> Inl (ValidationError errors))"

text \<open>
  A request with \<open>_serviceProvider\<close> and \<open>_reassignedTo\<close> populated (a user that is
  gone populates as \<open>null\<close>), and the requests of an invoice as \<open>populate\<close> yields them.
\<close>

record populated_request =
  pr_doc :: request
  pr_serviceProvider :: "user option"
  pr_reassignedTo :: "user option"

definition populate_request :: "db \<Rightarrow> request \<Rightarrow> populated_request" where
  "populate_request db r =
     \<lparr> pr_doc = r, pr_serviceProvider = db_users db (r_serviceProvider r),
       pr_reassignedTo = (case r_reassignedTo r of None \<Rightarrow> None | Some u \<Rightarrow> db_users db u) \<rparr>"

definition populated_requests :: "db \<Rightarrow> invoice \<Rightarrow> populated_request list" where
  "populated_requests db invoice =
     map (populate_request db) (List.map_filter (db_requests db) (i_requests invoice))"

definition destinationAccount :: "populated_request \<Rightarrow> user option" where
  "destinationAccount requestObj =
     (case pr_reassignedTo requestObj of Some reassignee \<Rightarrow> Some reassignee
      | None \<Rightarrow> pr_serviceProvider requestObj)"

text \<open>
  One round of \<open>Promise.each(invoice._requests, ...)\<close>: the state is
  \<open>runningInvoiceTotal\<close>, \<open>pendingTransfers\<close> and \<open>reasigneeTransferAmounts\<close>. Reading
  \<open>stripeSellerId\<close> of a missing destination account is a \<open>TypeError\<close>. The amount of
  a transfer is \<open>+(originalTotal.toFixed(2) * 100).toFixed(2)\<close>.
\<close>

type_synonym transfers_state =
  "number \<times> (pending_transfer \<times> populated_request option) list \<times> (oid \<rightharpoonup> number)"

definition cents :: "number \<Rightarrow> number" where
  "cents amount = toFixed 2 (js_mul (toFixed 2 amount) (Num 100))"

definition add_pending_transfer ::
  "number \<Rightarrow> number \<Rightarrow> transfers_state \<Rightarrow> populated_request \<Rightarrow> js_error + transfers_state" where
  "add_pending_transfer percentOfInvoice fee st requestObj =
     (case st of (runningInvoiceTotal, pendingTransfers, reasigneeTransferAmounts) \<Rightarrow>
        let originalTotal = ownerPercentage percentOfInvoice (r_total (pr_doc requestObj));
            serviceFeeAmount = js_mul originalTotal fee;
            totalChargeAmt = js_add originalTotal serviceFeeAmount;
            amounts = (case pr_reassignedTo requestObj of
                         None \<Rightarrow> reasigneeTransferAmounts
                       | Some reassignee \<Rightarrow>
                           reasigneeTransferAmounts(u_id reassignee \<mapsto>
                             (case reasigneeTransferAmounts (u_id reassignee) of
                                Some a \<Rightarrow> js_add a originalTotal
                              | None \<Rightarrow> originalTotal)))
        in case destinationAccount requestObj of
             None \<Rightarrow> Inl TypeError
           | Some account \<Rightarrow>
               Inr (js_add runningInvoiceTotal totalChargeAmt,
                    pendingTransfers @
                      [(\<lparr> pt_amount = cents originalTotal, pt_currency = currency,
                          pt_destination = u_stripeSellerId account, pt_source_transaction = None \<rparr>,
                        Some requestObj)],
                    amounts))"

fun build_pendingTransfers ::
  "number \<Rightarrow> number \<Rightarrow> transfers_state \<Rightarrow> populated_request list \<Rightarrow> js_error + transfers_state" where
  "build_pendingTransfers percentOfInvoice fee st [] = Inr st"
| "build_pendingTransfers percentOfInvoice fee st (requestObj # rest) =
     (case add_pending_transfer percentOfInvoice fee st requestObj of
        Inl err \<Rightarrow> Inl err
      | Inr st' \<Rightarrow> build_pendingTransfers percentOfInvoice fee st' rest)"

text \<open>The tip, paid to the main service provider of the invoice, is not tied to a request.\<close>

definition add_tip_transfer ::
  "payment \<Rightarrow> user option \<Rightarrow> number \<times> (pending_transfer \<times> populated_request option) list
     \<Rightarrow> js_error + number \<times> (pending_transfer \<times> populated_request option) list" where
  "add_tip_transfer populatedPayment payee st =
     (case st of (runningInvoiceTotal, pendingTransfers) \<Rightarrow>
        if js_positive (p_tip populatedPayment)
        then (case payee of
                None \<Rightarrow> Inl TypeError
              | Some account \<Rightarrow>
                  Inr (js_add runningInvoiceTotal (p_tip populatedPayment),
                       pendingTransfers @
                         [(\<lparr> pt_amount = cents (p_tip populatedPayment), pt_currency = currency,
                             pt_destination = u_stripeSellerId account, pt_source_transaction = None \<rparr>,
                           None)]))
        else Inr (runningInvoiceTotal, pendingTransfers))"

text \<open>
  The \<open>catch\<close> of a transfer that threw. It reads the name of the invoice's service
  provider and of its trainer (a \<open>TypeError\<close> when either user is gone, before any
  mail), mails the failure (to the admin, with the reassignee of the request, the
  service provider of the request or, for the tip, the service provider of the invoice
  in blind copy), and pushes to the service provider and to the paying users and
  approvers of the invoice (a \<open>TypeError\<close> when one of these is gone, after the
  mails). The result: the mails sent, and whether the block threw.
\<close>

definition payout_failure_emails :: "env \<Rightarrow> user \<Rightarrow> populated_request option \<Rightarrow> js_error + email list" where
  "payout_failure_emails env invoiceServiceProvider request =
     (case request of
        Some r \<Rightarrow>
          (case pr_reassignedTo r of
             Some reassignee \<Rightarrow>
               Inr [\<lparr> e_subject = ''Stripe Payout Failure'', e_to = [ADMIN_EMAIL env], e_bcc = [u_email reassignee] \<rparr>,
                    \<lparr> e_subject = ''Stripe Payout Failure'', e_to = [ADMIN_EMAIL env], e_bcc = [u_email reassignee] \<rparr>]
           | None \<Rightarrow>
               (case pr_serviceProvider r of
                  Some serviceProvider \<Rightarrow>
                    Inr [\<lparr> e_subject = ''Stripe Payout Failure'', e_to = [ADMIN_EMAIL env],
                           e_bcc = [u_email serviceProvider] \<rparr>]
                | None \<Rightarrow> Inl TypeError))
      | None \<Rightarrow>
          Inr [\<lparr> e_subject = ''Stripe Payout Failure'', e_to = [ADMIN_EMAIL env],
                 e_bcc = [u_email invoiceServiceProvider] \<rparr>])"

definition payout_failure_report :: "env \<Rightarrow> db \<Rightarrow> invoice \<Rightarrow> populated_request option \<Rightarrow> email list \<times> bool" where
  "payout_failure_report env db invoice request =
     (case (invoice_serviceProvider db invoice, invoice_trainer db invoice) of
        (Some serviceProvider, Some trainer) \<Rightarrow>
          (case payout_failure_emails env serviceProvider request of
             Inl err \<Rightarrow> ([], True)
           | Inr mails \<Rightarrow> (mails, sendPushNotification_throws (getPayingUsers db invoice)))
      | _ \<Rightarrow> ([], True))"

text \<open>
  The transaction pushed in \<open>finally\<close>. For a request it names the destination
  account, the reassignee or else the service provider of the request.
\<close>

definition transaction_of ::
  "env \<Rightarrow> payment_body \<Rightarrow> string \<Rightarrow> string \<Rightarrow> populated_request option \<Rightarrow> transaction" where
  "transaction_of env body chargeId transferToken request =
     (case request of
        Some r \<Rightarrow>
          \<lparr> t_transactionType = ''request'', t_request = Some (r_id (pr_doc r)),
            t_serviceProvider = map_option u_id (destinationAccount r),
            t_payingUser = pb_payingUser body, t_transferId = transferToken,
            t_transactionId = chargeId, t_transactionDate = env_now env \<rparr>
      | None \<Rightarrow>
          \<lparr> t_transactionType = ''tip'', t_request = None,
            t_serviceProvider = pb_serviceProvider body,
            t_payingUser = pb_payingUser body, t_transferId = transferToken,
            t_transactionId = chargeId, t_transactionDate = env_now env \<rparr>)"

text \<open>
  The payout loop \<open>Promise.each(pendingTransfers, ...)\<close>. Its state: the payment in
  memory, \<open>failedPayoutCount\<close>, the mails sent, and whether a round has thrown out of
  the loop, which ends it. A transfer that throws is caught: the count goes up and the
  failure is reported. In \<open>finally\<close>, whatever happened, the transaction is pushed
  (reading the \<open>_id\<close> of the destination account of a request, a \<open>TypeError\<close> without a
  push when there is none) and the payment saved; an error thrown by the report
  leaves the loop after that.
\<close>

record transfer_state =
  ts_payment :: payment
  ts_failedPayoutCount :: nat
  ts_emails :: "email list"
  ts_thrown :: bool

definition process_transfer ::
  "env \<Rightarrow> payment_body \<Rightarrow> string \<Rightarrow> db \<Rightarrow> invoice \<Rightarrow> transfer_state
     \<Rightarrow> nat \<times> pending_transfer \<times> populated_request option \<Rightarrow> transfer_state" where
  "process_transfer env body chargeId db invoice st transferWithRequest =
     (case transferWithRequest of (k, pendingTransfer, request) \<Rightarrow>
        if ts_thrown st then st
        else
          let transfer = transfers_create env k (pendingTransfer\<lparr>pt_source_transaction := Some chargeId\<rparr>);
              report = (case transfer of
                          Some transferId \<Rightarrow> ([], False)
                        | None \<Rightarrow> payout_failure_report env db invoice request);
              transferToken = (case transfer of Some transferId \<Rightarrow> transferId | None \<Rightarrow> []);
              pushed = (case request of Some r \<Rightarrow> destinationAccount r \<noteq> None | None \<Rightarrow> True)
          in st\<lparr> ts_payment :=
                   (if pushed
                    then (ts_payment st)\<lparr> p_transactions := p_transactions (ts_payment st) @
                                             [transaction_of env body chargeId transferToken request] \<rparr>
                    else ts_payment st),
                 ts_failedPayoutCount := ts_failedPayoutCount st + (if transfer = None then 1 else 0),
                 ts_emails := ts_emails st @ fst report,
                 ts_thrown := (snd report \<or> \<not> pushed) \<rparr>)"

definition process_transfers ::
  "env \<Rightarrow> payment_body \<Rightarrow> string \<Rightarrow> db \<Rightarrow> invoice \<Rightarrow> payment
     \<Rightarrow> (pending_transfer \<times> populated_request option) list \<Rightarrow> transfer_state" where
  "process_transfers env body chargeId db invoice populatedPayment pendingTransfers =
     foldl (process_transfer env body chargeId db invoice)
       \<lparr> ts_payment = populatedPayment, ts_failedPayoutCount = 0, ts_emails = [], ts_thrown = False \<rparr>
       (zip [0 ..< length pendingTransfers] pendingTransfers)"

text \<open>\<open>populatedPayment.save()\<close> and \<open>populatedPayment.remove()\<close>, by the \<open>_id\<close> of the document.\<close>

definition payment_save :: "payment list \<Rightarrow> payment \<Rightarrow> payment list" where
  "payment_save ps payment = map (\<lambda>p. if p_id p = p_id payment then payment else p) ps"

definition payment_remove :: "payment list \<Rightarrow> payment \<Rightarrow> payment list" where
  "payment_remove ps payment = filter (\<lambda>p. p_id p \<noteq> p_id payment) ps"

text \<open>
  The payment is saved in the rounds of the payout loop, so not at all without a
  round. (A round that does not get to its save has not changed the payment either.)
\<close>

definition save_after_payouts ::
  "payment list \<Rightarrow> (pending_transfer \<times> populated_request option) list \<Rightarrow> payment \<Rightarrow> payment list" where
  "save_after_payouts ps pendingTransfers payment =
     (if pendingTransfers = [] then ps else payment_save ps payment)"

text \<open>
  \<open>emailInvoiceReceipt\<close>. Before the first mail is sent the function reads the mail
  address of every paying user and approver, the name of the horse, of the trainer and
  of the service provider of the invoice: a \<open>TypeError\<close> when one of them is not
  there. Then one mail goes to the payers and approvers, one to the main service
  provider, and one to each reassignee.
\<close>

definition emailInvoiceReceipt :: "db \<Rightarrow> invoice \<Rightarrow> js_error + email list" where
  "emailInvoiceReceipt db invoice =
     (if sendPushNotification_throws (getPayingUsers db invoice) then Inl TypeError
      else if invoice_horse db invoice = None then Inl TypeError
      else if invoice_trainer db invoice = None then Inl TypeError
      else
        (case invoice_serviceProvider db invoice of
           None \<Rightarrow> Inl TypeError
         | Some serviceProvider \<Rightarrow>
             Inr ([\<lparr> e_subject = ''HorseLinc - Invoice Paid In Full'',
                      e_to = map u_email (List.map_filter id (getPayingUsers db invoice)),
                      e_bcc = [] \<rparr>,
                    \<lparr> e_subject = ''HorseLinc - Invoice Paid In Full'',
                      e_to = [u_email serviceProvider], e_bcc = [] \<rparr>] @
                  map (\<lambda>reassignee. \<lparr> e_subject = ''HorseLinc - Invoice Paid In Full'',
                                      e_to = [u_email reassignee], e_bcc = [] \<rparr>)
                    (invoice_reassignees db invoice))))"

text \<open>
  The payments of the invoice are counted: the tip is stored with the first payment,
  and \<open>paidInFullAt\<close> is set when there are as many payments as paying users.
\<close>

definition settle_invoice :: "env \<Rightarrow> payment_body \<Rightarrow> invoice \<Rightarrow> db \<Rightarrow> invoice" where
  "settle_invoice env body invoice db =
     (let previousPayments = payments_of_invoice db (pb_invoice body);
          invoice1 = (if length previousPayments = 1 then invoice\<lparr>i_tip := pb_tip body\<rparr> else invoice)
      in if length previousPayments = length (i_payingUsers invoice1)
         then invoice1\<lparr>i_paidInFullAt := Some (env_now env)\<rparr> else invoice1)"

text \<open>
  After the payouts, still inside \<open>try\<close>: the notification to a paying user someone
  else paid for; the pushes, which read the invoice's service provider and, for every
  reassignee of the invoice, its entry in \<open>reasigneeTransferAmounts\<close> (a \<open>TypeError\<close>
  when either is missing); then the invoice is settled and saved, and an invoice that
  has \<open>paidInFullAt\<close> is receipted. The result is the database, the invoice in memory,
  and the error thrown if one was.
\<close>

definition after_transfers ::
  "env \<Rightarrow> oid \<Rightarrow> payment_body \<Rightarrow> invoice \<Rightarrow> user \<Rightarrow> (oid \<rightharpoonup> number) \<Rightarrow> db
     \<Rightarrow> db \<times> invoice \<times> js_error option" where
  "after_transfers env userId body invoice payingUser reasigneeTransferAmounts db =
     (let db1 = (if u_id payingUser \<noteq> userId
                 then db\<lparr>db_notifications := db_notifications db @ [[u_id payingUser]]\<rparr> else db)
      in if invoice_serviceProvider db1 invoice = None then (db1, invoice, Some TypeError)
         else if \<not> list_all (\<lambda>reassignee. reasigneeTransferAmounts (u_id reassignee) \<noteq> None)
                     (invoice_reassignees db1 invoice)
         then (db1, invoice, Some TypeError)
         else
           let invoice2 = settle_invoice env body invoice db1;
               db2 = db1\<lparr>db_invoices := invoice_save (db_invoices db1) invoice2\<rparr>
           in if i_paidInFullAt invoice2 = None then (db2, invoice2, None)
              else
                (case emailInvoiceReceipt db2 invoice2 of
                   Inl err \<Rightarrow> (db2, invoice2, Some err)
                 | Inr mails \<Rightarrow> (db2\<lparr>db_emails := db_emails db2 @ mails\<rparr>, invoice2, None)))"

text \<open>
  The \<open>catch\<close> around the charge and all that follows it: mail the admin, remove the
  payment, reset \<open>paidInFullAt\<close> on the invoice in memory and save it, answer with the
  error.
\<close>

definition charge_failed :: "env \<Rightarrow> invoice \<Rightarrow> payment \<Rightarrow> js_error \<Rightarrow> db \<Rightarrow> db \<times> payment response" where
  "charge_failed env invoice populatedPayment error db =
     (db\<lparr> db_emails := db_emails db @
             [\<lparr> e_subject = ''Stripe Charge Failure'', e_to = [ADMIN_EMAIL env], e_bcc = [] \<rparr>],
          db_payments := payment_remove (db_payments db) populatedPayment,
          db_invoices := invoice_save (db_invoices db) (invoice\<lparr>i_paidInFullAt := None\<rparr>) \<rparr>,
      RespondWithError
        (if error_message error \<noteq> [] then error_message error
         else ''Your payment did not go through. Please contact HorseLinc.''))"

text \<open>The responses after \<open>try\<close>; on a paid invoice every request is marked paid.\<close>

definition mark_request_paid :: "date \<Rightarrow> (oid \<rightharpoonup> request) \<Rightarrow> oid \<Rightarrow> (oid \<rightharpoonup> request)" where
  "mark_request_paid now rs rid =
     (case rs rid of
        None \<Rightarrow> rs
      | Some request \<Rightarrow>
          (case request_save rs (request\<lparr>r_paidAt := Some now\<rparr>) of
             Inl err \<Rightarrow> rs
           | Inr rs' \<Rightarrow> rs'))"

definition payouts_failed_message :: string where
  "payouts_failed_message =
     ''Your payment has been submitted, but it may not have reached its final payee(s). Please contact HorseLinc.''"

definition respond :: "env \<Rightarrow> invoice \<Rightarrow> payment \<Rightarrow> nat \<Rightarrow> db \<Rightarrow> db \<times> payment response" where
  "respond env invoice populatedPayment failedPayoutCount db =
     (if failedPayoutCount > 0 then (db, Status200 payouts_failed_message populatedPayment)
      else if i_paidInFullAt invoice \<noteq> None
      then (db\<lparr>db_requests := foldl (mark_request_paid (env_now env)) (db_requests db) (i_requests invoice)\<rparr>,
            Status200 ''Invoice paid in full'' populatedPayment)
      else (db, Status200 ''Payment successful'' populatedPayment))"

text \<open>
  What the handler holds when it reaches the charge: the invoice, the paying
  user, the payment it has created, the total to charge, the pending transfers, the
  amounts by reassignee, and the database with the new payment in it.
\<close>

record prepared =
  pp_invoice :: invoice
  pp_payingUser :: user
  pp_payment :: payment
  pp_runningInvoiceTotal :: number
  pp_pendingTransfers :: "(pending_transfer \<times> populated_request option) list"
  pp_reasigneeTransferAmounts :: "oid \<rightharpoonup> number"
  pp_db :: db

text \<open>
  The handler up to the charge. \<open>userId\<close> is \<open>req.user._id\<close>. An error thrown while the
  pending transfers are assembled is outside the inner \<open>try\<close>: it goes to \<open>next\<close>, and
  the payment document created just before stays.
\<close>

definition prepare :: "env \<Rightarrow> oid \<Rightarrow> payment_body \<Rightarrow> db \<Rightarrow> db \<times> payment response + prepared" where
  "prepare env userId body db =
     (case create_checks userId body db of
        Inl resp \<Rightarrow> Inl (db, resp)
      | Inr (invoice, payingUser) \<Rightarrow>
          (case new_payment env userId body of
             Inl err \<Rightarrow> Inl (db, HandleError err)
           | Inr payment \<Rightarrow>
               let db1 = db\<lparr>db_payments := db_payments db @ [payment]\<rparr> in
               (case build_pendingTransfers (body_percentOfInvoice body) (SERVICE_FEE_PERCENT env)
                       (Num 0, [], Map.empty) (populated_requests db1 invoice) of
                  Inl err \<Rightarrow> Inl (db1, HandleError err)
                | Inr (requestsTotal, requestTransfers, reasigneeTransferAmounts) \<Rightarrow>
                    (case add_tip_transfer payment (invoice_serviceProvider db1 invoice)
                            (requestsTotal, requestTransfers) of
                       Inl err \<Rightarrow> Inl (db1, HandleError err)
                     | Inr (runningInvoiceTotal, pendingTransfers) \<Rightarrow>
                         Inr \<lparr> pp_invoice = invoice, pp_payingUser = payingUser, pp_payment = payment,
                               pp_runningInvoiceTotal = runningInvoiceTotal,
                               pp_pendingTransfers = pendingTransfers,
                               pp_reasigneeTransferAmounts = reasigneeTransferAmounts,
                               pp_db = db1 \<rparr>))))"

text \<open>
  The single charge, and what follows from its outcome. Whatever is thrown between the
  charge and the end of \<open>try\<close> (by the charge, by the payout loop, by the pushes, by
  the receipt) lands in the same \<open>catch\<close>.
\<close>

definition chargeObj :: "prepared \<Rightarrow> charge_obj" where
  "chargeObj c =
     \<lparr> co_amount = toFixed 0 (js_mul (pp_runningInvoiceTotal c) (Num 100)), co_currency = currency,
       co_customer = u_stripeCustomerId (pp_payingUser c), co_receipt_email = u_email (pp_payingUser c) \<rparr>"

definition charge_and_pay :: "env \<Rightarrow> oid \<Rightarrow> payment_body \<Rightarrow> prepared \<Rightarrow> db \<times> payment response" where
  "charge_and_pay env userId body c =
     (let invoice = pp_invoice c; populatedPayment = pp_payment c; db = pp_db c
      in case charges_create env (chargeObj c) (pb_uuid body) of
           ChargeThrows message \<Rightarrow> charge_failed env invoice populatedPayment (StripeError message) db
         | ChargeNull \<Rightarrow> respond env invoice populatedPayment 0 db
         | Charge chargeId failure_message \<Rightarrow>
             if truthy failure_message then respond env invoice populatedPayment 0 db
             else
               let st = process_transfers env body chargeId db invoice populatedPayment (pp_pendingTransfers c);
                   db1 = db\<lparr> db_payments := save_after_payouts (db_payments db) (pp_pendingTransfers c)
                                                (ts_payment st),
                             db_emails := db_emails db @ ts_emails st \<rparr>
               in if ts_thrown st then charge_failed env invoice (ts_payment st) TypeError db1
                  else
                    (case after_transfers env userId body invoice (pp_payingUser c)
                            (pp_reasigneeTransferAmounts c) db1 of
                       (db2, invoice', Some err) \<Rightarrow> charge_failed env invoice' (ts_payment st) err db2
                     | (db2, invoice', None) \<Rightarrow>
                         respond env invoice' (ts_payment st) (ts_failedPayoutCount st) db2))"

definition create :: "env \<Rightarrow> oid \<Rightarrow> payment_body \<Rightarrow> db \<Rightarrow> db \<times> payment response" where
  "create env userId body db =
     (case prepare env userId body db of
        Inl answered \<Rightarrow> answered
      | Inr c \<Rightarrow> charge_and_pay env userId body c)"

section \<open>\<open>invoice.model.js\<close>: the CSV export\<close>

text \<open>
  What \<open>toCsvRow(user)\<close> reads of an invoice: the strings its getters return for the
  requesting user (dates are formatted by moment and amounts by \<open>toFixed(2)\<close>, neither
  of which is modelled), the parts \<open>getConcatenatedDescription\<close> assembles, and the
  two times \<open>new Date(...)\<close> makes of the invoice date and the payment date when the
  rows are sorted.
\<close>

record csv_invoice =
  cv_paymentType :: string
  cv_invoiceDate :: string
  cv_paymentDate :: string
  cv_invoiceTotal :: string
  cv_invoiceTip :: string
  cv_totalAmountPaid :: string
  cv_amountPaidByUser :: string
  cv_invoicePayers :: string
  cv_mainServiceProviderName :: string
  cv_reassigneeNames :: string
  cv_horsesAndServices :: string
  cv_requestInstructions :: string
  cv_requestProviderNotes :: string
  cv_payerNames :: string
  cv_payingUsersLength :: nat
  cv_invoiceDateTime :: int
  cv_paymentDateTime :: int

definition CRLF :: string where
  "CRLF = [CHR 0x0D, CHR 0x0A]"

text \<open>\<open>str.slice(0, -n)\<close> drops the last \<open>n\<close> characters.\<close>

definition slice_0_neg :: "nat \<Rightarrow> string \<Rightarrow> string" where
  "slice_0_neg n str = take (length str - n) str"

text \<open>\<open>str.trim()\<close>, on the white space and line terminators of ASCII.\<close>

definition is_white_space :: "char \<Rightarrow> bool" where
  "is_white_space c = (c \<in> set [CHR 0x20, CHR 0x09, CHR 0x0A, CHR 0x0B, CHR 0x0C, CHR 0x0D])"

definition js_trim :: "string \<Rightarrow> string" where
  "js_trim str = rev (dropWhile is_white_space (rev (dropWhile is_white_space str)))"

definition getConcatenatedDescription :: "user \<Rightarrow> csv_invoice \<Rightarrow> string" where
  "getConcatenatedDescription user c =
     (let description = [CHR 0x22];
          description = description @ cv_horsesAndServices c @ ''... '';
          description = (if cv_requestInstructions c \<noteq> []
                         then description @ ''Instructions: '' @ cv_requestInstructions c @ ''... ''
                         else description);
          description = (if isServiceProvider user \<and> cv_requestProviderNotes c \<noteq> []
                         then description @ ''Notes: '' @ cv_requestProviderNotes c @ ''... ''
                         else description);
          description = description @ ''Payer'' @ (if cv_payingUsersLength c = 1 then [] else ''s'')
                          @ '': '' @ cv_payerNames c @ ''... '';
          description = slice_0_neg 4 description
      in description @ [CHR 0x22])"

text \<open>\<open>toCsvRow\<close>: the row as built, one value and one comma at a time, and then clipped.\<close>

definition rowOutput_built :: "user \<Rightarrow> csv_invoice \<Rightarrow> string" where
  "rowOutput_built user c =
     (let rowOutput = [];
          rowOutput = rowOutput @ cv_paymentType c @ '','';
          rowOutput = rowOutput @ cv_invoiceDate c @ '','';
          rowOutput = rowOutput @ cv_paymentDate c @ '','';
          rowOutput = rowOutput @ cv_invoiceTotal c @ '','';
          rowOutput = rowOutput @ cv_invoiceTip c @ '','';
          rowOutput = rowOutput @ cv_totalAmountPaid c @ '','';
          rowOutput = rowOutput @ (if isManager user then cv_amountPaidByUser c @ '','' else []);
          rowOutput = rowOutput @ cv_invoicePayers c @ '','';
          rowOutput = rowOutput @ (if isManager user then cv_mainServiceProviderName c @ '','' else []);
          rowOutput = rowOutput @ cv_reassigneeNames c @ '','';
          rowOutput = rowOutput @ getConcatenatedDescription user c @ '',''
      in rowOutput)"

definition toCsvRow :: "user \<Rightarrow> csv_invoice \<Rightarrow> string" where
  "toCsvRow user c = slice_0_neg 1 (rowOutput_built user c)"

definition getCsvHeaders :: "user \<Rightarrow> string" where
  "getCsvHeaders user =
     (if isManager user
      then ''Payment Type, Invoice Date, Payment Date, Invoice Total, Tip Amount, Total Amount Paid, Amount Paid By Me, Paid By, Service Provider, Reassigned To, Description'' @ CRLF
      else ''Payment Type, Invoice Date, Payment Date, Invoice Total, Tip Amount, Total Amount Paid, Paid By, Reassigned To, Description'' @ CRLF)"

text \<open>
  \<open>convertAllToCsv\<close>. Each invoice is paired with its row; the pairs are sorted newest
  first, managers by invoice date and providers by payment date (the comparator is the
  difference of the two times; the sort is the stable one of current V8); each row is
  appended with a line break; the whole is trimmed. The pairs are pushed as the rows
  resolve; the model takes them in the order of \<open>invoices\<close>.
\<close>

definition sort_time :: "user \<Rightarrow> csv_invoice \<Rightarrow> int" where
  "sort_time user c = (if isManager user then cv_invoiceDateTime c else cv_paymentDateTime c)"

definition sortedInvoicesAndRows :: "csv_invoice list \<Rightarrow> user \<Rightarrow> (csv_invoice \<times> string) list" where
  "sortedInvoicesAndRows invoices user =
     sort_key (\<lambda>tuple. - sort_time user (fst tuple)) (map (\<lambda>invoice. (invoice, toCsvRow user invoice)) invoices)"

definition convertAllToCsv :: "csv_invoice list \<Rightarrow> user \<Rightarrow> string" where
  "convertAllToCsv invoices user =
     js_trim (foldl (\<lambda>fileOutput sortedInvoiceAndRow. fileOutput @ snd sortedInvoiceAndRow @ CRLF)
                (getCsvHeaders user) (sortedInvoicesAndRows invoices user))"

text \<open>Reading a CSV line back: the cells between the commas, and the header's column titles.\<close>

fun split_at_commas :: "string \<Rightarrow> string \<Rightarrow> string list" where
  "split_at_commas cell [] = [rev cell]"
| "split_at_commas cell (c # cs) =
     (if c = CHR '','' then rev cell # split_at_commas [] cs else split_at_commas (c # cell) cs)"

definition csv_columns :: "string \<Rightarrow> string list" where
  "csv_columns line = map js_trim (split_at_commas [] line)"

text \<open>
  \<open>cells.join(',')\<close>, and the values \<open>toCsvRow\<close> interpolates, in order: what a row is
  compared with below.
\<close>

fun join_commas :: "string list \<Rightarrow> string" where
  "join_commas [] = []"
| "join_commas [x] = x"
| "join_commas (x # y # ys) = x @ '','' @ join_commas (y # ys)"

definition row_cells :: "user \<Rightarrow> csv_invoice \<Rightarrow> string list" where
  "row_cells user c =
     (if isManager user
      then [cv_paymentType c, cv_invoiceDate c, cv_paymentDate c, cv_invoiceTotal c, cv_invoiceTip c,
            cv_totalAmountPaid c, cv_amountPaidByUser c, cv_invoicePayers c,
            cv_mainServiceProviderName c, cv_reassigneeNames c, getConcatenatedDescription user c]
      else [cv_paymentType c, cv_invoiceDate c, cv_paymentDate c, cv_invoiceTotal c, cv_invoiceTip c,
            cv_totalAmountPaid c, cv_invoicePayers c, cv_reassigneeNames c,
            getConcatenatedDescription user c])"

text \<open>
  For stating what the payout loop does: the transfer id recorded for the \<open>k\<close>-th
  pending transfer (empty when the transfer threw), and the transaction it leaves.
\<close>

definition transferToken :: "env \<Rightarrow> string \<Rightarrow> nat \<Rightarrow> pending_transfer \<Rightarrow> string" where
  "transferToken env chargeId k pendingTransfer =
     (case transfers_create env k (pendingTransfer\<lparr>pt_source_transaction := Some chargeId\<rparr>) of
        None \<Rightarrow> [] | Some transferId \<Rightarrow> transferId)"

definition transfer_throws :: "env \<Rightarrow> string \<Rightarrow> nat \<times> pending_transfer \<times> populated_request option \<Rightarrow> bool" where
  "transfer_throws env chargeId transferWithRequest =
     (case transferWithRequest of (k, pendingTransfer, request) \<Rightarrow>
        transfers_create env k (pendingTransfer\<lparr>pt_source_transaction := Some chargeId\<rparr>) = None)"

definition transaction_for ::
  "env \<Rightarrow> payment_body \<Rightarrow> string \<Rightarrow> nat \<times> pending_transfer \<times> populated_request option \<Rightarrow> transaction" where
  "transaction_for env body chargeId transferWithRequest =
     (case transferWithRequest of (k, pendingTransfer, request) \<Rightarrow>
        transaction_of env body chargeId (transferToken env chargeId k pendingTransfer) request)"

text \<open>
  A round of the payout loop throws out of the loop when its transfer throws and the
  report of the failure throws in turn. The loop runs its rounds up to and including
  the first one that throws.
\<close>

definition round_throws ::
  "env \<Rightarrow> string \<Rightarrow> db \<Rightarrow> invoice \<Rightarrow> nat \<times> pending_transfer \<times> populated_request option \<Rightarrow> bool" where
  "round_throws env chargeId db invoice transferWithRequest =
     (transfer_throws env chargeId transferWithRequest \<and>
      snd (payout_failure_report env db invoice (snd (snd transferWithRequest))))"

fun rounds_run :: "('a \<Rightarrow> bool) \<Rightarrow> 'a list \<Rightarrow> nat" where
  "rounds_run throws [] = 0"
| "rounds_run throws (x # xs) = (if throws x then 1 else Suc (rounds_run throws xs))"

text \<open>A pending transfer of a request has a destination account (of the tip, needs none).\<close>

definition has_destination :: "nat \<times> pending_transfer \<times> populated_request option \<Rightarrow> bool" where
  "has_destination transferWithRequest =
     (case snd (snd transferWithRequest) of Some r \<Rightarrow> destinationAccount r \<noteq> None | None \<Rightarrow> True)"

text \<open>
  For stating what the loop over the requests assembles: the pending transfer of one
  populated request under \<open>percentOfInvoice\<close>.
\<close>

definition pending_transfer_of :: "number \<Rightarrow> populated_request \<Rightarrow> pending_transfer \<times> populated_request option" where
  "pending_transfer_of percentOfInvoice requestObj =
     (\<lparr> pt_amount = cents (ownerPercentage percentOfInvoice (r_total (pr_doc requestObj))),
        pt_currency = currency,
        pt_destination =
          (case pr_reassignedTo requestObj of
             Some reassignee \<Rightarrow> u_stripeSellerId reassignee
           | None \<Rightarrow> (case pr_serviceProvider requestObj of
                        Some serviceProvider \<Rightarrow> u_stripeSellerId serviceProvider
                      | None \<Rightarrow> None)),
        pt_source_transaction = None \<rparr>,
      Some requestObj)"

text \<open>And the pending transfer of the tip, when there is one.\<close>

definition tip_transfer :: "db \<Rightarrow> prepared \<Rightarrow> (pending_transfer \<times> populated_request option) list" where
  "tip_transfer db c =
     (if js_positive (p_tip (pp_payment c))
      then [(\<lparr> pt_amount = cents (p_tip (pp_payment c)), pt_currency = currency,
               pt_destination = (case db_users db (i_serviceProvider (pp_invoice c)) of
                                   Some serviceProvider \<Rightarrow> u_stripeSellerId serviceProvider
                                 | None \<Rightarrow> None),
               pt_source_transaction = None \<rparr>, None)]
      else [])"

text \<open>
  For stating when a round leaves the payout loop, in terms of the stored documents:
  the users that the report of a failed payout reads are the service provider and the
  trainer of the invoice, its paying users and its approvers. A round leaves the loop
  when its transfer throws and one of these users is not in the collection.
\<close>

definition users_resolve :: "db \<Rightarrow> invoice \<Rightarrow> bool" where
  "users_resolve db invoice =
     (db_users db (i_serviceProvider invoice) \<noteq> None \<and> db_users db (i_trainer invoice) \<noteq> None \<and>
      list_all (\<lambda>payer. db_users db (o_user payer) \<noteq> None) (i_payingUsers invoice) \<and>
      list_all (\<lambda>approver. db_users db approver \<noteq> None) (i_paymentApprovals invoice))"

definition leaves_loop ::
  "env \<Rightarrow> string \<Rightarrow> db \<Rightarrow> invoice \<Rightarrow> nat \<times> pending_transfer \<times> populated_request option \<Rightarrow> bool" where
  "leaves_loop env chargeId db invoice transferWithRequest =
     (transfer_throws env chargeId transferWithRequest \<and> \<not> users_resolve db invoice)"

text \<open>
  For stating when a call of create runs from the charge to its response: these users
  and the horse of the invoice are in their collections.
\<close>

definition references_resolve :: "db \<Rightarrow> invoice \<Rightarrow> bool" where
  "references_resolve db invoice =
     (users_resolve db invoice \<and>
      (case i_horse invoice of None \<Rightarrow> False | Some h \<Rightarrow> db_horses db h \<noteq> None))"

section \<open>Example data\<close>

text \<open>
  Users 7 (Ann) and 8 (Eve) are horse managers, 9 (Bob) is a service provider, 10 (Cy)
  a service provider that requests are reassigned to. Horse 2 is trained by Ann.
  Requests 2 and 3 are Bob's; invoice 5 is for request 2. The numbers are doubles:
  the fee 0.05 and the total 2.01 are written as the doubles nearest to them.
\<close>

definition example_horse_body :: "owner list \<Rightarrow> horse_body" where
  "example_horse_body os =
     \<lparr> hb_owner = None, hb_barnName = Some ''Star'', hb_showName = Some ''North Star'',
       hb_gender = Some ''mare'', hb_owners = Some os, hb_leasedTo = Absent, hb_trainer = Some 7,
       hb_registrations = Some [] \<rparr>"

definition example_horse :: "owner list \<Rightarrow> horse" where
  "example_horse os =
     \<lparr> h_id = 2, h_barnName = Some ''Star'', h_showName = Some ''North Star'',
       h_gender = Some ''mare'', h_owners = os, h_leasedTo = None, h_trainer = Some 7,
       h_createdBy = Some 7 \<rparr>"

definition empty_horse_db :: horse_db where
  "empty_horse_db = \<lparr> horses = Map.empty, horse_users = {7, 8}, horse_notifications = [] \<rparr>"

definition example_request :: "oid \<Rightarrow> date option \<Rightarrow> request" where
  "example_request n paid =
     \<lparr> r_id = n, r_date = 20, r_horse = 2, r_horseManager = 7, r_serviceProvider = 9,
       r_reassignedTo = None, r_previousReassignees = [],
       r_services = [\<lparr>s_service = ''Shoeing'', s_rate = Num 80, s_quantity = Some (Num 1)\<rparr>],
       r_instructions = None, r_providerNotes = None, r_total = Num 80, r_deletedAt = None,
       r_declinedAt = None, r_acceptedAt = None, r_paidAt = paid \<rparr>"

definition example_request_body :: "oid \<Rightarrow> request_body" where
  "example_request_body n =
     \<lparr> rb_id = Some n, rb_date = None, rb_horse = None, rb_horseManager = Some 7,
       rb_serviceProvider = Some 9, rb_reassignedTo = Absent, rb_previousReassignees = None,
       rb_services = Some [\<lparr>s_service = ''Shoeing'', s_rate = Num 5, s_quantity = Some (Num 1)\<rparr>],
       rb_instructions = None, rb_providerNotes = None \<rparr>"

definition example_request_db :: db where
  "example_request_db =
     \<lparr> db_requests = [2 \<mapsto> example_request 2 (Some 30), 3 \<mapsto> example_request 3 None],
       db_invoices = Map.empty, db_payments = [], db_users = Map.empty,
       db_horses = [2 \<mapsto> example_horse []], db_emails = [], db_notifications = [] \<rparr>"

definition example_user :: "oid \<Rightarrow> string \<Rightarrow> string \<Rightarrow> user" where
  "example_user n name role =
     \<lparr> u_id = n, u_name = name, u_email = name @ ''@example.org'', u_roles = [role],
       u_stripeCustomerId = Some ''cus'', u_stripeSellerId = Some (''acct_'' @ name),
       u_accountSetupComplete = True \<rparr>"

definition example_users :: "oid \<rightharpoonup> user" where
  "example_users =
     [7 \<mapsto> example_user 7 ''Ann'' ''horse manager'', 8 \<mapsto> example_user 8 ''Eve'' ''horse manager'',
      9 \<mapsto> example_user 9 ''Bob'' ''service provider'', 10 \<mapsto> example_user 10 ''Cy'' ''service provider'']"

definition example_invoice :: "owner list \<Rightarrow> date option \<Rightarrow> invoice" where
  "example_invoice payers paid =
     \<lparr> i_id = 5, i_amount = Num 80, i_tip = None, i_paidOutsideAppAt = None, i_paidInFullAt = paid,
       i_payingUsers = payers, i_paymentApprovals = [], i_horse = Some 2, i_requests = [2],
       i_serviceProvider = 9, i_trainer = 7, i_reassignees = [], i_deletedAt = None \<rparr>"

definition example_payment :: "oid \<Rightarrow> oid \<Rightarrow> payment" where
  "example_payment n payer =
     \<lparr> p_id = n, p_invoice = Some 5, p_serviceProvider = 9, p_payingUser = Some payer,
       p_paymentSubmittedBy = Some payer, p_transactions = [], p_paidOutsideApp = False,
       p_date = 25, p_amount = Num 80, p_tip = Num 0, p_percentOfInvoice = Some (Num 100) \<rparr>"

definition example_invoice_body :: "oid option \<Rightarrow> invoice_body" where
  "example_invoice_body n =
     \<lparr> ib_id = n, ib_tip = None, ib_paidOutsideAppAt = Absent, ib_paidInFullAt = Absent,
       ib_payingUsers = None, ib_paymentApprovals = None, ib_horse = None,
       ib_requests = Some [\<lparr>ro_id = 2, ro_services = Some [\<lparr>s_service = ''Shoeing'', s_rate = Num 5, s_quantity = None\<rparr>]\<rparr>],
       ib_serviceProvider = None, ib_reassignees = None, ib_trainer = None \<rparr>"

definition example_paid_invoice_db :: db where
  "example_paid_invoice_db =
     \<lparr> db_requests = [2 \<mapsto> example_request 2 None],
       db_invoices = [5 \<mapsto> example_invoice [\<lparr>o_user = 7, percentage = Num 100\<rparr>] (Some 26)],
       db_payments = [example_payment 11 7],
       db_users = [7 \<mapsto> example_user 7 ''Ann'' ''horse manager'', 9 \<mapsto> example_user 9 ''Bob'' ''service provider''],
       db_horses = [2 \<mapsto> example_horse []],
       db_emails = [], db_notifications = [] \<rparr>"

definition example_csv_invoice :: "int \<Rightarrow> csv_invoice" where
  "example_csv_invoice t =
     \<lparr> cv_paymentType = ''COMPLETE'', cv_invoiceDate = ''09/01/2018'', cv_paymentDate = ''09/02/2018'',
       cv_invoiceTotal = ''84.00'', cv_invoiceTip = ''0'', cv_totalAmountPaid = ''84.00'',
       cv_amountPaidByUser = ''84.00'', cv_invoicePayers = ''Ann (84.00 paid)'',
       cv_mainServiceProviderName = ''Bob'', cv_reassigneeNames = ''N/A'',
       cv_horsesAndServices = ''Service for North Star (Star) - Shoeing (x1): 84.00'',
       cv_requestInstructions = [], cv_requestProviderNotes = [], cv_payerNames = ''Ann'',
       cv_payingUsersLength = 1, cv_invoiceDateTime = t, cv_paymentDateTime = t \<rparr>"

definition example_env :: "charge_result \<Rightarrow> (nat \<Rightarrow> string option) \<Rightarrow> env" where
  "example_env charge transfers =
     \<lparr> env_now = 40, env_new_id = 12, SERVICE_FEE_PERCENT = Num (3602879701896397 / 2 ^ 56),
       ADMIN_EMAIL = ''admin@example.org'',
       charges_create = (\<lambda>chargeObj uuid. charge), transfers_create = (\<lambda>k pendingTransfer. transfers k) \<rparr>"

definition example_payment_body :: "oid \<Rightarrow> number \<Rightarrow> payment_body" where
  "example_payment_body payer percent =
     \<lparr> pb_invoice = Some 5, pb_payingUser = Some payer, pb_serviceProvider = Some 9, pb_tip = Some (Num 10),
       pb_percentOfInvoice = Some percent, pb_invoiceTotal = Some (Num 80), pb_uuid = None \<rparr>"

definition example_invoice_db :: "owner list \<Rightarrow> date option \<Rightarrow> payment list \<Rightarrow> db" where
  "example_invoice_db payers paid ps =
     \<lparr> db_requests = [2 \<mapsto> example_request 2 None],
       db_invoices = [5 \<mapsto> example_invoice payers paid],
       db_payments = ps,
       db_users = example_users,
       db_horses = [2 \<mapsto> example_horse []],
       db_emails = [], db_notifications = [] \<rparr>"

definition example_new_payment :: payment where
  "example_new_payment =
     \<lparr> p_id = 12, p_invoice = Some 5, p_serviceProvider = 9, p_payingUser = Some 7,
       p_paymentSubmittedBy = Some 7, p_transactions = [], p_paidOutsideApp = False, p_date = 40,
       p_amount = Num 80, p_tip = Num 10, p_percentOfInvoice = Some (Num 100) \<rparr>"

definition example_pendingTransfers :: "(pending_transfer \<times> populated_request option) list" where
  "example_pendingTransfers =
     [(\<lparr> pt_amount = Num 8000, pt_currency = ''usd'', pt_destination = Some ''acct_Bob'', pt_source_transaction = None \<rparr>,
       Some \<lparr> pr_doc = example_request 2 None,
              pr_serviceProvider = Some (example_user 9 ''Bob'' ''service provider''),
              pr_reassignedTo = None \<rparr>),
      (\<lparr> pt_amount = Num 1000, pt_currency = ''usd'', pt_destination = Some ''acct_Bob'', pt_source_transaction = None \<rparr>,
       None)]"

definition example_prepared :: "date option \<Rightarrow> prepared" where
  "example_prepared paid =
     \<lparr> pp_invoice = example_invoice [\<lparr>o_user = 7, percentage = Num 100\<rparr>] paid,
       pp_payingUser = example_user 7 ''Ann'' ''horse manager'',
       pp_payment = example_new_payment,
       pp_runningInvoiceTotal = Num 94,
       pp_pendingTransfers = example_pendingTransfers,
       pp_reasigneeTransferAmounts = Map.empty,
       pp_db = (example_invoice_db [\<lparr>o_user = 7, percentage = Num 100\<rparr>] paid [])\<lparr>db_payments := [example_new_payment]\<rparr> \<rparr>"


text \<open>
  The invoice of the examples after its trainer, user 77, has deleted their account.
\<close>

definition example_orphan_db :: db where
  "example_orphan_db =
     (example_invoice_db [\<lparr>o_user = 7, percentage = Num 100\<rparr>] None [])
       \<lparr> db_invoices := [5 \<mapsto> (example_invoice [\<lparr>o_user = 7, percentage = Num 100\<rparr>] None)\<lparr> i_trainer := 77 \<rparr>] \<rparr>"

section \<open>Ownership must total 100%\<close>

text \<open>The definitions that evaluate the arithmetic of doubles on numerals.\<close>

lemmas double_defs =
  to_double_def exponent_def pow2_def round_half_even_def ilog2.simps toFixed_def js_or_def
  number_of_def js_positive_def Let_def

lemma horse_save_accepts:
  assumes "horse_save hs h = Inr hs'"
  shows "owners_total_100 h" and "hs' = hs(h_id h \<mapsto> h)"
proof -
  from assms have none: "horse_validation_errors h = []"
    by (auto simp: horse_save_def split: list.splits)
  then have "validator_passes (owners_validator (h_owners h))"
    by (auto simp: horse_validation_errors_def split: if_splits)
  then show "owners_total_100 h"
    by (auto simp: validator_passes_def owners_validator_def owners_total_100_def split: if_splits)
  from assms none show "hs' = hs(h_id h \<mapsto> h)"
    by (simp add: horse_save_def)
qed

lemma horse_save_rejects:
  assumes "\<not> owners_total_100 h"
  shows "\<exists>errs. horse_save hs h = Inl (ValidationError errs) \<and>
           (''_owners'', ''Ownership must total 100%'') \<in> set errs"
proof -
  from assms have "\<not> validator_passes (owners_validator (h_owners h))"
    by (auto simp: validator_passes_def owners_validator_def owners_total_100_def)
  then have mem: "(''_owners'', ''Ownership must total 100%'') \<in> set (horse_validation_errors h)"
    by (simp add: horse_validation_errors_def)
  then obtain e es where "horse_validation_errors h = e # es"
    by (cases "horse_validation_errors h") auto
  with mem show ?thesis by (auto simp: horse_save_def)
qed

lemma horse_save_changed:
  assumes "horse_save hs h = Inr hs'" and "hs' i = Some h'" and "hs' i \<noteq> hs i"
  shows "owners_total_100 h'"
proof -
  from assms(1) have eq: "hs' = hs(h_id h \<mapsto> h)" by (rule horse_save_accepts)
  with assms(2,3) have "h' = h" by (auto split: if_splits)
  with assms(1) show ?thesis by (simp add: horse_save_accepts)
qed

lemma horse_handle_persisted:
  assumes "horse_handle r db = (db', resp)" and "horses db' i = Some h" and "horses db' i \<noteq> horses db i"
  shows "owners_total_100 h"
proof (cases r)
  case (HorseCreate fresh user body)
  with assms obtain x where "horse_save (horses db) x = Inr (horses db')"
    by (auto simp: horse_create_def Let_def split: if_splits sum.splits)
  with assms show ?thesis using horse_save_changed by blast
next
  case (HorseUpdate hid body)
  with assms obtain x where "horse_save (horses db) x = Inr (horses db')"
    by (auto simp: horse_update_def Let_def
             split: if_splits sum.splits option.splits owner_ref.splits)
  with assms show ?thesis using horse_save_changed by blast
next
  case (HorseUpdateMultipleOwners hid os)
  with assms obtain x where "horse_save (horses db) x = Inr (horses db')"
    by (auto simp: horse_updateMultipleOwners_def split: sum.splits option.splits)
  with assms show ?thesis using horse_save_changed by blast
qed

lemma horse_save_rejected:
  assumes "h_owners h \<noteq> []" and "owners_sum (h_owners h) \<noteq> Num 100"
  shows "\<exists>err. horse_save hs h = Inl err"
proof -
  from assms have "\<not> owners_total_100 h" by (simp add: owners_total_100_def)
  then show ?thesis using horse_save_rejects by blast
qed

lemma horse_handle_rejected:
  assumes "requested_owners r = Some os" and "os \<noteq> []" and "owners_sum os \<noteq> Num 100"
  shows "fst (horse_handle r db) = db"
proof (cases r)
  case (HorseCreate fresh user body)
  let ?h = "\<lparr> h_id = fresh, h_barnName = hb_barnName body, h_showName = hb_showName body,
              h_gender = hb_gender body, h_owners = os,
              h_leasedTo = (case hb_leasedTo body of Present u \<Rightarrow> Some u | _ \<Rightarrow> None),
              h_trainer = hb_trainer body, h_createdBy = Some user \<rparr>"
  from assms have "\<exists>err. horse_save (horses db) ?h = Inl err"
    by (intro horse_save_rejected) simp_all
  with HorseCreate assms(1) show ?thesis
    by (auto simp: horse_create_def Let_def)
next
  case (HorseUpdate hid body)
  show ?thesis
  proof (cases "horses db hid")
    case None
    with HorseUpdate show ?thesis
      by (simp add: horse_update_def split: option.splits owner_ref.splits)
  next
    case (Some horse)
    have "\<exists>err. horse_save (horses db) (horse_assign horse body) = Inl err"
      using assms HorseUpdate by (intro horse_save_rejected) (simp_all add: horse_assign_def)
    then obtain err where "horse_save (horses db) (horse_assign horse body) = Inl err" by blast
    with HorseUpdate Some show ?thesis
      by (simp add: horse_update_def Let_def split: option.splits owner_ref.splits)
  qed
next
  case (HorseUpdateMultipleOwners hid os')
  show ?thesis
  proof (cases "horses db hid")
    case None
    with HorseUpdateMultipleOwners show ?thesis by (simp add: horse_updateMultipleOwners_def)
  next
    case (Some horse)
    have "\<exists>err. horse_save (horses db) (horse\<lparr>h_owners := os\<rparr>) = Inl err"
      using assms by (intro horse_save_rejected) simp_all
    then obtain err where "horse_save (horses db) (horse\<lparr>h_owners := os\<rparr>) = Inl err" by blast
    with HorseUpdateMultipleOwners Some assms(1) show ?thesis
      by (simp add: horse_updateMultipleOwners_def)
  qed
qed

lemma example_horse_create:
  "horse_create 2 7 (example_horse_body [\<lparr>o_user = 7, percentage = Num 50\<rparr>, \<lparr>o_user = 8, percentage = Num 50\<rparr>])
     empty_horse_db =
   (empty_horse_db\<lparr>horses := [2 \<mapsto> example_horse [\<lparr>o_user = 7, percentage = Num 50\<rparr>, \<lparr>o_user = 8, percentage = Num 50\<rparr>]]\<rparr>,
    RespondWithResult (example_horse [\<lparr>o_user = 7, percentage = Num 50\<rparr>, \<lparr>o_user = 8, percentage = Num 50\<rparr>]))"
  by (simp add: horse_create_def example_horse_body_def example_horse_def empty_horse_db_def
        horse_save_def horse_validation_errors_def required_error_def validator_passes_def
        owners_validator_def owners_sum_def double_defs)

text \<open>
  The doubles nearest to 99.8 and to 0.1: added from the left, 99.8, 0.1 and 0.1 give
  99.99999999999999, the double below 100.
\<close>

lemma example_owners_sum_below_100:
  "owners_sum [\<lparr>o_user = 7, percentage = Num (7022800668930867 / 2 ^ 46)\<rparr>,
               \<lparr>o_user = 8, percentage = Num (3602879701896397 / 2 ^ 55)\<rparr>,
               \<lparr>o_user = 9, percentage = Num (3602879701896397 / 2 ^ 55)\<rparr>]
     = Num (7036874417766399 / 2 ^ 46)"
  by (simp add: owners_sum_def double_defs)

text \<open>
  C2, as the code has it. Whatever horse a create, update or updateMultipleOwners
  request writes to the collection, its \<open>_owners\<close> are empty or their percentages,
  added in double arithmetic from 0 in the order of the list, give exactly 100; and a
  save of a horse whose non-empty \<open>_owners\<close> do not give 100 in that sum is rejected
  with a validation error that carries 'Ownership must total 100%' for path
  \<open>_owners\<close>, so that a request naming such owners leaves the database as it was.
\<close>

theorem horse_ownership_total_100:
  "(horse_handle r db = (db', resp) \<and> horses db' i = Some h \<and> horses db' i \<noteq> horses db i
      \<longrightarrow> h_owners h = [] \<or> owners_sum (h_owners h) = Num 100) \<and>
   (h_owners g \<noteq> [] \<and> owners_sum (h_owners g) \<noteq> Num 100
      \<longrightarrow> (\<exists>errs. horse_save hs g = Inl (ValidationError errs) \<and>
             (''_owners'', ''Ownership must total 100%'') \<in> set errs)) \<and>
   (requested_owners q = Some os \<and> os \<noteq> [] \<and> owners_sum os \<noteq> Num 100
      \<longrightarrow> fst (horse_handle q d) = d)"
proof (intro conjI impI)
  assume "requested_owners q = Some os \<and> os \<noteq> [] \<and> owners_sum os \<noteq> Num 100"
  then show "fst (horse_handle q d) = d" by (simp add: horse_handle_rejected)
next
  assume "horse_handle r db = (db', resp) \<and> horses db' i = Some h \<and> horses db' i \<noteq> horses db i"
  then have "owners_total_100 h" using horse_handle_persisted by blast
  then show "h_owners h = [] \<or> owners_sum (h_owners h) = Num 100"
    by (simp add: owners_total_100_def)
next
  assume "h_owners g \<noteq> [] \<and> owners_sum (h_owners g) \<noteq> Num 100"
  then have "\<not> owners_total_100 g" by (simp add: owners_total_100_def)
  then show "\<exists>errs. horse_save hs g = Inl (ValidationError errs) \<and>
             (''_owners'', ''Ownership must total 100%'') \<in> set errs"
    by (rule horse_save_rejects)
qed

theorem horse_ownership_total_100_witness:
  "owners_sum (h_owners (example_horse [\<lparr>o_user = 7, percentage = Num 50\<rparr>, \<lparr>o_user = 8, percentage = Num 50\<rparr>])) = Num 100 \<and>
   (\<exists>errs. horse_save Map.empty
              (example_horse [\<lparr>o_user = 7, percentage = Num (7022800668930867 / 2 ^ 46)\<rparr>,
                              \<lparr>o_user = 8, percentage = Num (3602879701896397 / 2 ^ 55)\<rparr>,
                              \<lparr>o_user = 9, percentage = Num (3602879701896397 / 2 ^ 55)\<rparr>])
              = Inl (ValidationError errs) \<and>
           (''_owners'', ''Ownership must total 100%'') \<in> set errs) \<and>
   fst (horse_handle (HorseCreate 2 7 (example_horse_body [\<lparr>o_user = 7, percentage = Num 60\<rparr>, \<lparr>o_user = 8, percentage = Num 30\<rparr>]))
          empty_horse_db) = empty_horse_db"
proof -
  let ?ok = "[\<lparr>o_user = 7, percentage = Num 50\<rparr>, \<lparr>o_user = 8, percentage = Num 50\<rparr>]"
  let ?near = "[\<lparr>o_user = 7, percentage = Num (7022800668930867 / 2 ^ 46)\<rparr>,
                \<lparr>o_user = 8, percentage = Num (3602879701896397 / 2 ^ 55)\<rparr>,
                \<lparr>o_user = 9, percentage = Num (3602879701896397 / 2 ^ 55)\<rparr>]"
  let ?bad = "[\<lparr>o_user = 7, percentage = Num 60\<rparr>, \<lparr>o_user = 8, percentage = Num 30\<rparr>]"
  let ?db' = "empty_horse_db\<lparr>horses := [2 \<mapsto> example_horse ?ok]\<rparr>"
  have run: "horse_handle (HorseCreate 2 7 (example_horse_body ?ok)) empty_horse_db
               = (?db', RespondWithResult (example_horse ?ok))"
    by (simp add: example_horse_create)
  have written: "horses ?db' 2 = Some (example_horse ?ok)" by simp
  have changed: "horses ?db' 2 \<noteq> horses empty_horse_db 2" by (simp add: empty_horse_db_def)
  have near: "h_owners (example_horse ?near) \<noteq> [] \<and> owners_sum (h_owners (example_horse ?near)) \<noteq> Num 100"
    using example_owners_sum_below_100 by (simp add: example_horse_def)
  have asked: "requested_owners (HorseCreate 2 7 (example_horse_body ?bad)) = Some ?bad \<and> ?bad \<noteq> [] \<and>
               owners_sum ?bad \<noteq> Num 100"
    by (simp add: example_horse_body_def owners_sum_def double_defs)
  from horse_ownership_total_100
         [of "HorseCreate 2 7 (example_horse_body ?ok)" empty_horse_db ?db'
             "RespondWithResult (example_horse ?ok)" 2 "example_horse ?ok" "example_horse ?near" Map.empty
             "HorseCreate 2 7 (example_horse_body ?bad)" ?bad empty_horse_db]
       run written changed near asked
  show ?thesis by (simp add: example_horse_def)
qed

text \<open>
  C2, as stated, fails. A create with the owners 100 and \<open>2 ^ -70\<close>
  (8.470329472543003e-22) is accepted: in double arithmetic the sum is 100, and the
  horse is written with these two percentages, which do not sum to 100.
\<close>

theorem horse_ownership_not_exactly_100_counterexample:
  "horses (fst (horse_handle
      (HorseCreate 2 7 (example_horse_body [\<lparr>o_user = 7, percentage = Num 100\<rparr>, \<lparr>o_user = 8, percentage = Num (1 / 2 ^ 70)\<rparr>]))
      empty_horse_db)) 2
     = Some (example_horse [\<lparr>o_user = 7, percentage = Num 100\<rparr>, \<lparr>o_user = 8, percentage = Num (1 / 2 ^ 70)\<rparr>]) \<and>
   snd (horse_handle
      (HorseCreate 2 7 (example_horse_body [\<lparr>o_user = 7, percentage = Num 100\<rparr>, \<lparr>o_user = 8, percentage = Num (1 / 2 ^ 70)\<rparr>]))
      empty_horse_db)
     = RespondWithResult (example_horse [\<lparr>o_user = 7, percentage = Num 100\<rparr>, \<lparr>o_user = 8, percentage = Num (1 / 2 ^ 70)\<rparr>]) \<and>
   horses empty_horse_db 2 = None \<and>
   (100 :: real) + 1 / 2 ^ 70 \<noteq> 100"
  by (simp add: horse_create_def example_horse_body_def example_horse_def empty_horse_db_def
        horse_save_def horse_validation_errors_def required_error_def validator_passes_def
        owners_validator_def owners_sum_def double_defs)

section \<open>A paid request is not modified\<close>

lemma request_update_paid_guard:
  assumes "rb_id body = Some b" and "db_requests db b = Some r" and "r_paidAt r \<noteq> None"
  shows "request_update paramsId body db = (db, RespondWithError ''This request has already been paid'')"
  using assms by (simp add: request_update_def)

text \<open>
  C9. The guard reads the request named by \<open>req.body._id\<close>, the write goes to the
  request named by \<open>req.params.id\<close>. With request 2 paid, request 3 unpaid and an
  update of request 2 whose body carries \<open>_id = 3\<close>, the handler answers with the
  updated request and the stored request 2, still paid, has a new total.
\<close>

theorem request_update_overwrites_paid_request:
  "r_paidAt (the (db_requests example_request_db 2)) = Some 30 \<and>
   snd (request_update 2 (example_request_body 3) example_request_db)
     = RespondWithResult ((example_request 2 (Some 30))
         \<lparr> r_services := [\<lparr>s_service = ''Shoeing'', s_rate = Num 5, s_quantity = Some (Num 1)\<rparr>], r_total := Num 5 \<rparr>) \<and>
   map_option r_total (db_requests (fst (request_update 2 (example_request_body 3) example_request_db)) 2) = Some (Num 5) \<and>
   map_option r_total (db_requests example_request_db 2) = Some (Num 80) \<and>
   map_option r_paidAt (db_requests (fst (request_update 2 (example_request_body 3) example_request_db)) 2) = Some (Some 30)"
  by (simp add: request_update_def example_request_db_def example_request_body_def
        example_request_def request_assign_def request_save_def services_total_def
        quantity_or_1_def double_defs)

section \<open>An invoice with a payment is not edited or deleted\<close>

lemma invoice_update_guard:
  assumes "payments_of_invoice db (ib_id body) \<noteq> []"
  shows "invoice_update paramsId body db
           = (db, RespondWithError ''Invoice cannot be updated once a payment has been made.'')"
  using assms by (simp add: invoice_update_def)

lemma invoice_destroy_guard:
  assumes "payments_of_invoice db (Some paramsId) \<noteq> []"
  shows "fst (invoice_destroy now userId paramsId db) = db"
    and "is_error_response (snd (invoice_destroy now userId paramsId db))"
  using assms by (auto simp: invoice_destroy_def split: option.splits)

text \<open>
  C3. Invoice 5 has one payment against it. An update of invoice 5 whose body has no
  \<open>_id\<close> is not rejected: the payments are looked up under the \<open>_id\<close> of the body,
  none is found, and the handler rewrites request 2 of the invoice and the amount of
  the invoice itself. With the \<open>_id\<close> of another invoice in the body (6, which has
  no payment) the update is not rejected either and request 2 is rewritten all the
  same. (The delete handler looks the payments up under \<open>req.params.id\<close> and does
  reject: \<open>invoice_destroy_guard\<close>.)
\<close>

theorem invoice_update_overwrites_invoice_with_payment:
  "payments_of_invoice example_paid_invoice_db (Some 5) = [example_payment 11 7] \<and>
   map_option i_amount (db_invoices example_paid_invoice_db 5) = Some (Num 80) \<and>
   map_option r_total (db_requests example_paid_invoice_db 2) = Some (Num 80) \<and>
   \<not> is_error_response (snd (invoice_update 5 (example_invoice_body None) example_paid_invoice_db)) \<and>
   map_option i_amount (db_invoices (fst (invoice_update 5 (example_invoice_body None) example_paid_invoice_db)) 5) = Some (Num 5) \<and>
   map_option r_total (db_requests (fst (invoice_update 5 (example_invoice_body None) example_paid_invoice_db)) 2) = Some (Num 5) \<and>
   map_option r_total (db_requests (fst (invoice_update 5 (example_invoice_body (Some 6)) example_paid_invoice_db)) 2) = Some (Num 5)"
  by (simp add: invoice_update_def payments_of_invoice_def example_paid_invoice_db_def
        example_invoice_body_def example_payment_def example_invoice_def example_request_def
        update_request_of_invoice_def request_save_def services_total_def quantity_or_1_def
        invoice_assign_def invoice_save_def invoice_update_response_def invoice_serviceProvider_def
        invoice_horse_def getPayingUsers_def sendPushNotification_throws_def example_user_def
        example_horse_def double_defs)

section \<open>The CSV export\<close>

lemma slice_0_neg_append: "length t = n \<Longrightarrow> slice_0_neg n (s @ t) = s"
  by (simp add: slice_0_neg_def)

lemma description_ends_with_quote:
  "\<exists>d. getConcatenatedDescription user c = d @ [CHR 0x22]"
  by (simp add: getConcatenatedDescription_def Let_def)

lemma rowOutput_built_cells: "rowOutput_built user c = join_commas (row_cells user c) @ '',''"
  by (simp add: rowOutput_built_def row_cells_def Let_def)

lemma toCsvRow_cells: "toCsvRow user c = join_commas (row_cells user c)"
  by (simp add: toCsvRow_def rowOutput_built_cells slice_0_neg_append)

lemma toCsvRow_ends_with_quote: "\<exists>d. toCsvRow user c = d @ [CHR 0x22]"
proof -
  obtain d where d: "getConcatenatedDescription user c = d @ [CHR 0x22]"
    using description_ends_with_quote by blast
  show ?thesis
    by (simp add: toCsvRow_cells row_cells_def d)
qed

lemma rows_length: "length (map snd (sortedInvoicesAndRows invoices user)) = length invoices"
  by (simp add: sortedInvoicesAndRows_def)

lemma rows_mset:
  "mset (map snd (sortedInvoicesAndRows invoices user)) = image_mset (toCsvRow user) (mset invoices)"
proof -
  have "mset (map snd (sortedInvoicesAndRows invoices user))
          = image_mset snd (mset (sortedInvoicesAndRows invoices user))" by simp
  also have "\<dots> = image_mset snd (mset (map (\<lambda>invoice. (invoice, toCsvRow user invoice)) invoices))"
    by (simp add: sortedInvoicesAndRows_def)
  also have "\<dots> = image_mset (toCsvRow user) (mset invoices)"
    by (simp add: image_mset.compositionality comp_def)
  finally show ?thesis .
qed

lemma fileOutput_fold:
  "foldl (\<lambda>fileOutput sortedInvoiceAndRow. fileOutput @ snd sortedInvoiceAndRow @ CRLF) out tuples
     = out @ concat (map (\<lambda>row. row @ CRLF) (map snd tuples))"
  by (induction tuples arbitrary: out) simp_all

lemma js_trim_keeps:
  assumes "\<not> is_white_space a" and "\<not> is_white_space b"
  shows "js_trim (a # s @ [b] @ CRLF) = a # s @ [b]"
  using assms by (simp add: js_trim_def CRLF_def is_white_space_def)

lemma header_starts: "\<exists>h. getCsvHeaders user = CHR ''P'' # h"
  by (simp add: getCsvHeaders_def)

lemma convertAllToCsv_output:
  assumes "invoices \<noteq> []"
  shows "convertAllToCsv invoices user @ CRLF
           = getCsvHeaders user @ concat (map (\<lambda>row. row @ CRLF) (map snd (sortedInvoicesAndRows invoices user)))"
proof -
  let ?rows = "map snd (sortedInvoicesAndRows invoices user)"
  from assms have "length ?rows \<noteq> 0" by (simp only: rows_length) simp
  then have "?rows \<noteq> []" by fastforce
  then obtain rs r where rows: "?rows = rs @ [r]" by (metis rev_exhaust)
  then have "r \<in># mset ?rows" by simp
  then have "r \<in># image_mset (toCsvRow user) (mset invoices)" by (simp only: rows_mset)
  then obtain c where "r = toCsvRow user c" by auto
  then obtain d where r: "r = d @ [CHR 0x22]" using toCsvRow_ends_with_quote by blast
  obtain h where h: "getCsvHeaders user = CHR ''P'' # h" using header_starts by blast
  have "getCsvHeaders user @ concat (map (\<lambda>row. row @ CRLF) ?rows)
          = CHR ''P'' # (h @ concat (map (\<lambda>row. row @ CRLF) rs) @ d) @ [CHR 0x22] @ CRLF"
    by (simp add: rows r h)
  moreover have "js_trim (CHR ''P'' # (h @ concat (map (\<lambda>row. row @ CRLF) rs) @ d) @ [CHR 0x22] @ CRLF)
          = CHR ''P'' # (h @ concat (map (\<lambda>row. row @ CRLF) rs) @ d) @ [CHR 0x22]"
    by (rule js_trim_keeps) (simp_all add: is_white_space_def)
  ultimately show ?thesis
    by (simp add: convertAllToCsv_def fileOutput_fold)
qed

lemma header_columns:
  "csv_columns (getCsvHeaders user) =
     (if isManager user
      then [''Payment Type'', ''Invoice Date'', ''Payment Date'', ''Invoice Total'', ''Tip Amount'',
            ''Total Amount Paid'', ''Amount Paid By Me'', ''Paid By'', ''Service Provider'',
            ''Reassigned To'', ''Description'']
      else [''Payment Type'', ''Invoice Date'', ''Payment Date'', ''Invoice Total'', ''Tip Amount'',
            ''Total Amount Paid'', ''Paid By'', ''Reassigned To'', ''Description''])"
  by (simp add: csv_columns_def getCsvHeaders_def CRLF_def js_trim_def is_white_space_def)

text \<open>
  C8. The export appends exactly one row per invoice (the rows are the images of the
  invoices under \<open>toCsvRow\<close>, as a multiset, and for a non-empty export the file is the
  header line followed by these rows, each on a line of its own, the last line break
  trimmed); a row is built with a comma after every value and loses exactly that last
  comma, so that it is its values joined by commas, as many as the header has columns;
  and the header of a horse manager has the columns 'Amount Paid By Me' and
  'Service Provider', filled from the amount the user paid and the main service
  provider's name, while the header of a user who is not a horse manager has neither.
\<close>

theorem csv_export_rows_and_columns:
  "length (map snd (sortedInvoicesAndRows invoices user)) = length invoices \<and>
   mset (map snd (sortedInvoicesAndRows invoices user)) = image_mset (toCsvRow user) (mset invoices) \<and>
   (invoices \<noteq> [] \<longrightarrow>
      convertAllToCsv invoices user @ CRLF
        = getCsvHeaders user @ concat (map (\<lambda>row. row @ CRLF) (map snd (sortedInvoicesAndRows invoices user)))) \<and>
   rowOutput_built user c = toCsvRow user c @ '','' \<and>
   toCsvRow user c = join_commas (row_cells user c) \<and>
   length (row_cells user c) = length (csv_columns (getCsvHeaders user)) \<and>
   (isManager user \<longrightarrow>
      csv_columns (getCsvHeaders user) ! 6 = ''Amount Paid By Me'' \<and>
      row_cells user c ! 6 = cv_amountPaidByUser c \<and>
      csv_columns (getCsvHeaders user) ! 8 = ''Service Provider'' \<and>
      row_cells user c ! 8 = cv_mainServiceProviderName c) \<and>
   (\<not> isManager user \<longrightarrow>
      ''Amount Paid By Me'' \<notin> set (csv_columns (getCsvHeaders user)) \<and>
      ''Service Provider'' \<notin> set (csv_columns (getCsvHeaders user)))"
proof (intro conjI impI)
  show "length (map snd (sortedInvoicesAndRows invoices user)) = length invoices"
    by (rule rows_length)
  show "mset (map snd (sortedInvoicesAndRows invoices user)) = image_mset (toCsvRow user) (mset invoices)"
    by (rule rows_mset)
  show "rowOutput_built user c = toCsvRow user c @ '',''"
    by (simp add: rowOutput_built_cells toCsvRow_cells)
  show "toCsvRow user c = join_commas (row_cells user c)"
    by (rule toCsvRow_cells)
  show "length (row_cells user c) = length (csv_columns (getCsvHeaders user))"
    by (simp add: header_columns row_cells_def)
next
  assume "invoices \<noteq> []"
  then show "convertAllToCsv invoices user @ CRLF
        = getCsvHeaders user @ concat (map (\<lambda>row. row @ CRLF) (map snd (sortedInvoicesAndRows invoices user)))"
    by (rule convertAllToCsv_output)
next
  assume m: "isManager user"
  show "csv_columns (getCsvHeaders user) ! 6 = ''Amount Paid By Me''"
    using m by (simp add: header_columns)
  show "row_cells user c ! 6 = cv_amountPaidByUser c"
    using m by (simp add: row_cells_def)
  show "csv_columns (getCsvHeaders user) ! 8 = ''Service Provider''"
    using m by (simp add: header_columns)
  show "row_cells user c ! 8 = cv_mainServiceProviderName c"
    using m by (simp add: row_cells_def)
next
  assume m: "\<not> isManager user"
  show "''Amount Paid By Me'' \<notin> set (csv_columns (getCsvHeaders user))"
    using m by (simp add: header_columns)
  show "''Service Provider'' \<notin> set (csv_columns (getCsvHeaders user))"
    using m by (simp add: header_columns)
qed

theorem csv_export_rows_and_columns_witness:
  "length (map snd (sortedInvoicesAndRows [example_csv_invoice 3, example_csv_invoice 4]
                      (example_user 7 ''Ann'' ''horse manager''))) = 2 \<and>
   convertAllToCsv [example_csv_invoice 3, example_csv_invoice 4] (example_user 7 ''Ann'' ''horse manager'') @ CRLF
     = getCsvHeaders (example_user 7 ''Ann'' ''horse manager'') @
       concat (map (\<lambda>row. row @ CRLF)
         (map snd (sortedInvoicesAndRows [example_csv_invoice 3, example_csv_invoice 4]
                     (example_user 7 ''Ann'' ''horse manager'')))) \<and>
   csv_columns (getCsvHeaders (example_user 7 ''Ann'' ''horse manager'')) ! 6 = ''Amount Paid By Me'' \<and>
   row_cells (example_user 7 ''Ann'' ''horse manager'') (example_csv_invoice 3) ! 8 = ''Bob'' \<and>
   ''Amount Paid By Me'' \<notin> set (csv_columns (getCsvHeaders (example_user 9 ''Bob'' ''service provider''))) \<and>
   ''Service Provider'' \<notin> set (csv_columns (getCsvHeaders (example_user 9 ''Bob'' ''service provider'')))"
proof -
  let ?invoices = "[example_csv_invoice 3, example_csv_invoice 4]"
  have ne: "?invoices \<noteq> []" by simp
  have manager: "isManager (example_user 7 ''Ann'' ''horse manager'')"
    by (simp add: isManager_def example_user_def HORSE_MANAGER_def)
  have provider: "\<not> isManager (example_user 9 ''Bob'' ''service provider'')"
    by (simp add: isManager_def example_user_def HORSE_MANAGER_def)
  have name: "cv_mainServiceProviderName (example_csv_invoice 3) = ''Bob''"
    by (simp add: example_csv_invoice_def)
  from csv_export_rows_and_columns
         [of ?invoices "example_user 7 ''Ann'' ''horse manager''" "example_csv_invoice 3"]
       csv_export_rows_and_columns
         [of ?invoices "example_user 9 ''Bob'' ''service provider''" "example_csv_invoice 3"]
       ne manager provider name
  show ?thesis by simp
qed

section \<open>The payout loop\<close>

lemma thrown_stays:
  "ts_thrown st \<Longrightarrow> foldl (process_transfer env body cid db ivc) st xs = st"
  by (induction xs) (simp_all add: process_transfer_def split: prod.splits)

lemma process_transfer_round:
  assumes "\<not> ts_thrown st" and "has_destination x"
  shows "p_transactions (ts_payment (process_transfer env body cid db ivc st x))
           = p_transactions (ts_payment st) @ [transaction_for env body cid x]"
    and "ts_failedPayoutCount (process_transfer env body cid db ivc st x)
           = ts_failedPayoutCount st + (if transfer_throws env cid x then 1 else 0)"
    and "ts_thrown (process_transfer env body cid db ivc st x) = round_throws env cid db ivc x"
  using assms
  by (auto simp: process_transfer_def transaction_for_def transferToken_def transfer_throws_def
                 round_throws_def has_destination_def Let_def
           split: prod.splits option.splits)

lemma process_transfer_same_payment:
  "ts_payment (process_transfer env body cid db ivc st x)
     = (ts_payment st)\<lparr>p_transactions := p_transactions (ts_payment (process_transfer env body cid db ivc st x))\<rparr>"
  by (auto simp: process_transfer_def Let_def split: prod.splits option.splits)

lemma process_transfer_fold_same_payment:
  "ts_payment (foldl (process_transfer env body cid db ivc) st xs)
     = (ts_payment st)\<lparr>p_transactions := p_transactions (ts_payment (foldl (process_transfer env body cid db ivc) st xs))\<rparr>"
proof (induction xs arbitrary: st)
  case Nil
  then show ?case by simp
next
  case (Cons x xs)
  let ?st = "process_transfer env body cid db ivc st x"
  have "ts_payment (foldl (process_transfer env body cid db ivc) ?st xs)
     = (ts_payment ?st)\<lparr>p_transactions := p_transactions (ts_payment (foldl (process_transfer env body cid db ivc) ?st xs))\<rparr>"
    by (rule Cons.IH)
  also have "\<dots> = (ts_payment st)\<lparr>p_transactions := p_transactions (ts_payment (foldl (process_transfer env body cid db ivc) ?st xs))\<rparr>"
    by (subst process_transfer_same_payment) simp
  finally show ?case by simp
qed

lemma process_transfer_fold:
  assumes "\<not> ts_thrown st" and "\<forall>x\<in>set xs. has_destination x"
  shows "p_transactions (ts_payment (foldl (process_transfer env body cid db ivc) st xs))
           = p_transactions (ts_payment st) @
             map (transaction_for env body cid) (take (rounds_run (round_throws env cid db ivc) xs) xs)
         \<and> ts_failedPayoutCount (foldl (process_transfer env body cid db ivc) st xs)
           = ts_failedPayoutCount st +
             length (filter (transfer_throws env cid) (take (rounds_run (round_throws env cid db ivc) xs) xs))
         \<and> ts_thrown (foldl (process_transfer env body cid db ivc) st xs)
           = (\<exists>x\<in>set xs. round_throws env cid db ivc x)"
  using assms
proof (induction xs arbitrary: st)
  case Nil
  then show ?case by simp
next
  case (Cons x xs)
  let ?st = "process_transfer env body cid db ivc st x"
  from Cons.prems have dest: "has_destination x" and rest: "\<forall>y\<in>set xs. has_destination y" by simp_all
  note round = process_transfer_round [OF Cons.prems(1) dest, of env body cid db ivc]
  show ?case
  proof (cases "round_throws env cid db ivc x")
    case True
    with round(3) have "ts_thrown ?st" by simp
    then have "foldl (process_transfer env body cid db ivc) ?st xs = ?st" by (rule thrown_stays)
    with True round show ?thesis by (simp add: round_throws_def)
  next
    case False
    with round(3) have "\<not> ts_thrown ?st" by simp
    from Cons.IH [OF this rest] False round show ?thesis by simp
  qed
qed

lemma rounds_run_le: "rounds_run throws xs \<le> length xs"
  by (induction xs) simp_all

lemma rounds_run_all: "\<forall>x\<in>set xs. \<not> throws x \<Longrightarrow> rounds_run throws xs = length xs"
  by (induction xs) simp_all

lemma rounds_run_pos: "xs \<noteq> [] \<Longrightarrow> 0 < rounds_run throws xs"
  by (cases xs) simp_all

section \<open>The payment handler up to the charge\<close>

lemma create_checks_Inr:
  assumes "create_checks userId body db = Inr (invoice, payingUser)"
  shows "\<exists>i u. pb_invoice body = Some i \<and> db_invoices db i = Some invoice \<and> i_deletedAt invoice = None \<and>
           pb_payingUser body = Some u \<and> db_users db u = Some payingUser \<and>
           filter (\<lambda>p. p_invoice p = pb_invoice body \<and> p_payingUser p = pb_payingUser body) (db_payments db) = []"
  using assms
  by (auto simp: create_checks_def Let_def split: option.splits if_splits)


lemma ownerPercentage_NaN: "ownerPercentage NaN amount = NaN"
  by (simp add: ownerPercentage_def)

lemma new_payment_Inr:
  assumes "new_payment env userId body = Inr payment"
  shows "p_id payment = env_new_id env" and "p_invoice payment = pb_invoice body"
    and "p_payingUser payment = pb_payingUser body" and "p_transactions payment = []"
    and "pb_percentOfInvoice body = Some (body_percentOfInvoice body)"
    and "p_tip payment = ownerPercentage (body_percentOfInvoice body) (tip_or_0 (pb_tip body))"
proof -
  from assms obtain serviceProvider where
    payment: "payment =
      \<lparr> p_id = env_new_id env, p_invoice = pb_invoice body, p_serviceProvider = serviceProvider,
        p_payingUser = pb_payingUser body, p_paymentSubmittedBy = Some userId,
        p_transactions = [], p_paidOutsideApp = False, p_date = env_now env,
        p_amount = ownerPercentage (body_percentOfInvoice body) (number_of (pb_invoiceTotal body)),
        p_tip = ownerPercentage (body_percentOfInvoice body) (tip_or_0 (pb_tip body)),
        p_percentOfInvoice = pb_percentOfInvoice body \<rparr>"
    and amount: "ownerPercentage (body_percentOfInvoice body) (number_of (pb_invoiceTotal body)) \<noteq> NaN"
    by (auto simp: new_payment_def Let_def required_error_def split: option.splits list.splits if_splits)
  from payment show "p_id payment = env_new_id env" and "p_invoice payment = pb_invoice body"
    and "p_payingUser payment = pb_payingUser body" and "p_transactions payment = []"
    and "p_tip payment = ownerPercentage (body_percentOfInvoice body) (tip_or_0 (pb_tip body))"
    by simp_all
  from amount have "body_percentOfInvoice body \<noteq> NaN"
    using ownerPercentage_NaN by metis
  then show "pb_percentOfInvoice body = Some (body_percentOfInvoice body)"
    by (cases "pb_percentOfInvoice body") (simp_all add: body_percentOfInvoice_def number_of_def)
qed

lemma prepare_Inr:
  assumes "prepare env userId body db = Inr c"
  shows "create_checks userId body db = Inr (pp_invoice c, pp_payingUser c)"
    and "new_payment env userId body = Inr (pp_payment c)"
    and "pp_db c = db\<lparr>db_payments := db_payments db @ [pp_payment c]\<rparr>"
  using assms
  by (auto simp: prepare_def Let_def split: sum.splits prod.splits)


section \<open>The payments after a call of create\<close>




lemma payment_remove_fresh:
  assumes "p_id q \<notin> p_id ` set P" and "p_id q' = p_id q"
  shows "payment_remove (P @ [q]) q' = P"
proof -
  from assms have "filter (\<lambda>p. p_id p \<noteq> p_id q') P = P"
    by (intro filter_True) (auto simp: image_iff)
  with assms show ?thesis by (simp add: payment_remove_def)
qed


lemma process_transfers_same_payment:
  "ts_payment (process_transfers env body cid db ivc payment pts)
     = payment\<lparr>p_transactions := p_transactions (ts_payment (process_transfers env body cid db ivc payment pts))\<rparr>"
  unfolding process_transfers_def
  by (subst process_transfer_fold_same_payment) simp



text \<open>What a call that has reached the charge makes of the outcome of the charge.\<close>

lemma charge_and_pay_charged:
  assumes "charges_create env (chargeObj c) (pb_uuid body) = Charge cid fm" and "\<not> truthy fm"
  shows "charge_and_pay env userId body c =
     (let st = process_transfers env body cid (pp_db c) (pp_invoice c) (pp_payment c) (pp_pendingTransfers c);
          db1 = (pp_db c)\<lparr> db_payments := save_after_payouts (db_payments (pp_db c)) (pp_pendingTransfers c)
                                            (ts_payment st),
                         db_emails := db_emails (pp_db c) @ ts_emails st \<rparr>
      in if ts_thrown st then charge_failed env (pp_invoice c) (ts_payment st) TypeError db1
         else
           (case after_transfers env userId body (pp_invoice c) (pp_payingUser c)
                   (pp_reasigneeTransferAmounts c) db1 of
              (db2, invoice', Some err) \<Rightarrow> charge_failed env invoice' (ts_payment st) err db2
            | (db2, invoice', None) \<Rightarrow>
                respond env invoice' (ts_payment st) (ts_failedPayoutCount st) db2))"
  using assms by (simp add: charge_and_pay_def Let_def)









section \<open>A charge that fails\<close>

lemma create_of_prepare_Inr:
  "prepare env userId body db = Inr c \<Longrightarrow> create env userId body db = charge_and_pay env userId body c"
  by (simp add: create_def)

lemma prepare_invoice_stored:
  assumes "prepare env userId body db = Inr c" and "pb_invoice body = Some i"
  shows "db_invoices db i = Some (pp_invoice c)"
proof -
  from assms(1) have "create_checks userId body db = Inr (pp_invoice c, pp_payingUser c)"
    by (rule prepare_Inr)
  then obtain i' where "pb_invoice body = Some i'" and "db_invoices db i' = Some (pp_invoice c)"
    using create_checks_Inr by blast
  with assms(2) show ?thesis by simp
qed

lemma charge_throws_rollback:
  assumes prep: "prepare env userId body db = Inr c"
    and charge: "charges_create env (chargeObj c) (pb_uuid body) = ChargeThrows message"
    and fresh: "env_new_id env \<notin> p_id ` set (db_payments db)"
  shows "create env userId body db =
           (db\<lparr> db_emails := db_emails db @
                    [\<lparr> e_subject = ''Stripe Charge Failure'', e_to = [ADMIN_EMAIL env], e_bcc = [] \<rparr>],
                 db_invoices := invoice_save (db_invoices db) ((pp_invoice c)\<lparr>i_paidInFullAt := None\<rparr>) \<rparr>,
            RespondWithError (if message \<noteq> [] then message
                              else ''Your payment did not go through. Please contact HorseLinc.''))"
proof -
  from prep have np: "new_payment env userId body = Inr (pp_payment c)"
    and db1: "pp_db c = db\<lparr>db_payments := db_payments db @ [pp_payment c]\<rparr>"
    by (rule prepare_Inr)+
  from fresh np have "p_id (pp_payment c) \<notin> p_id ` set (db_payments db)"
    by (simp add: new_payment_Inr)
  then have "payment_remove (db_payments db @ [pp_payment c]) (pp_payment c) = db_payments db"
    by (rule payment_remove_fresh) simp
  with charge db1 show ?thesis
    by (simp add: create_of_prepare_Inr [OF prep] charge_and_pay_def Let_def charge_failed_def
          error_message_def)
qed

text \<open>The definitions that evaluate the handler up to the charge on the example data.\<close>

lemmas prepare_example_defs =
  prepare_def create_checks_def new_payment_def example_env_def example_payment_body_def
  example_invoice_db_def example_invoice_def example_users_def example_user_def example_request_def
  truthy_def required_error_def populated_requests_def populate_request_def List.map_filter_def
  add_pending_transfer_def destinationAccount_def add_tip_transfer_def ownerPercentage_def
  tip_or_0_def body_percentOfInvoice_def invoice_serviceProvider_def cents_def currency_def
  double_defs

lemma example_prepare_eq:
  "prepare (example_env charge transfers) 7 (example_payment_body 7 (Num 100))
         (example_invoice_db [\<lparr>o_user = 7, percentage = Num 100\<rparr>] paid []) = Inr (example_prepared paid)"
  by (simp add: prepare_example_defs example_prepared_def example_new_payment_def
        example_pendingTransfers_def)

lemma example_prepare:
  "\<exists>c. prepare (example_env charge transfers) 7 (example_payment_body 7 (Num 100))
         (example_invoice_db [\<lparr>o_user = 7, percentage = Num 100\<rparr>] paid []) = Inr c"
  using example_prepare_eq by blast

text \<open>
  C4. When the handler has reached the charge and \<open>stripe.charges.create\<close> throws,
  the caller gets an error response (the message of the error, or 'Your payment did
  not go through. Please contact HorseLinc.'), the payments are what they were before
  the call (the payment just created is removed; its id is one no stored payment had),
  the stored invoice has \<open>paidInFullAt\<close> null, one mail 'Stripe Charge Failure' has gone
  to the admin, and requests and notifications are untouched.
\<close>

theorem charge_failure_rolls_back:
  assumes "prepare env userId body db = Inr c"
    and "charges_create env (chargeObj c) (pb_uuid body) = ChargeThrows message"
    and "env_new_id env \<notin> p_id ` set (db_payments db)"
    and "pb_invoice body = Some (i_id (pp_invoice c))"
  shows "snd (create env userId body db)
           = RespondWithError (if message \<noteq> [] then message
                               else ''Your payment did not go through. Please contact HorseLinc.'') \<and>
         db_payments (fst (create env userId body db)) = db_payments db \<and>
         map_option i_paidInFullAt (db_invoices (fst (create env userId body db)) (i_id (pp_invoice c))) = Some None \<and>
         db_emails (fst (create env userId body db))
           = db_emails db @ [\<lparr> e_subject = ''Stripe Charge Failure'', e_to = [ADMIN_EMAIL env], e_bcc = [] \<rparr>] \<and>
         db_requests (fst (create env userId body db)) = db_requests db \<and>
         db_notifications (fst (create env userId body db)) = db_notifications db"
proof -
  have stored: "db_invoices db (i_id (pp_invoice c)) = Some (pp_invoice c)"
    using assms(1,4) by (rule prepare_invoice_stored)
  have "create env userId body db =
           (db\<lparr> db_emails := db_emails db @
                    [\<lparr> e_subject = ''Stripe Charge Failure'', e_to = [ADMIN_EMAIL env], e_bcc = [] \<rparr>],
                 db_invoices := invoice_save (db_invoices db) ((pp_invoice c)\<lparr>i_paidInFullAt := None\<rparr>) \<rparr>,
            RespondWithError (if message \<noteq> [] then message
                              else ''Your payment did not go through. Please contact HorseLinc.''))"
    using assms(1-3) by (rule charge_throws_rollback)
  with stored show ?thesis
    by (auto simp: invoice_save_def)
qed

theorem charge_failure_rolls_back_witness:
  "snd (create (example_env (ChargeThrows ''card declined'') (\<lambda>k. None)) 7 (example_payment_body 7 (Num 100))
          (example_invoice_db [\<lparr>o_user = 7, percentage = Num 100\<rparr>] (Some 26) []))
     = RespondWithError ''card declined'' \<and>
   db_payments (fst (create (example_env (ChargeThrows ''card declined'') (\<lambda>k. None)) 7 (example_payment_body 7 (Num 100))
          (example_invoice_db [\<lparr>o_user = 7, percentage = Num 100\<rparr>] (Some 26) []))) = [] \<and>
   map_option i_paidInFullAt
     (db_invoices (fst (create (example_env (ChargeThrows ''card declined'') (\<lambda>k. None)) 7 (example_payment_body 7 (Num 100))
          (example_invoice_db [\<lparr>o_user = 7, percentage = Num 100\<rparr>] (Some 26) []))) 5) = Some None"
proof -
  let ?env = "example_env (ChargeThrows ''card declined'') (\<lambda>k. None)"
  let ?body = "example_payment_body 7 (Num 100)"
  let ?db = "example_invoice_db [\<lparr>o_user = 7, percentage = Num 100\<rparr>] (Some 26) []"
  obtain c where prep: "prepare ?env 7 ?body ?db = Inr c"
    using example_prepare by blast
  have charge: "charges_create ?env (chargeObj c) (pb_uuid ?body) = ChargeThrows ''card declined''"
    by (simp add: example_env_def)
  have fresh: "env_new_id ?env \<notin> p_id ` set (db_payments ?db)"
    by (simp add: example_invoice_db_def)
  have body: "pb_invoice ?body = Some 5" by (simp add: example_payment_body_def)
  with prep have "db_invoices ?db 5 = Some (pp_invoice c)" by (rule prepare_invoice_stored)
  then have inv: "pp_invoice c = example_invoice [\<lparr>o_user = 7, percentage = Num 100\<rparr>] (Some 26)"
    by (simp add: example_invoice_db_def)
  then have "pb_invoice ?body = Some (i_id (pp_invoice c))"
    using body by (simp add: example_invoice_def)
  from charge_failure_rolls_back [OF prep charge fresh this] inv
  show ?thesis by (simp add: example_invoice_def example_invoice_db_def)
qed

section \<open>The pending transfers\<close>

lemma add_pending_transfer_Inr:
  assumes "add_pending_transfer pct fee (t0, trs0, a0) r = Inr (t, trs, a)"
  shows "trs = trs0 @ [pending_transfer_of pct r]" and "destinationAccount r \<noteq> None"
  using assms
  by (auto simp: add_pending_transfer_def Let_def pending_transfer_of_def destinationAccount_def
           split: option.splits)

lemma build_pendingTransfers_Inr:
  assumes "build_pendingTransfers pct fee (t0, trs0, a0) rs = Inr (t, trs, a)"
  shows "trs = trs0 @ map (pending_transfer_of pct) rs \<and> (\<forall>r\<in>set rs. destinationAccount r \<noteq> None)"
  using assms
proof (induction rs arbitrary: t0 trs0 a0)
  case Nil
  then show ?case by simp
next
  case (Cons r rs)
  from Cons.prems obtain t1 trs1 a1 where
    step: "add_pending_transfer pct fee (t0, trs0, a0) r = Inr (t1, trs1, a1)" and
    rest: "build_pendingTransfers pct fee (t1, trs1, a1) rs = Inr (t, trs, a)"
    by (auto split: sum.splits)
  from step have "trs1 = trs0 @ [pending_transfer_of pct r]" and "destinationAccount r \<noteq> None"
    by (rule add_pending_transfer_Inr)+
  moreover from rest have "trs = trs1 @ map (pending_transfer_of pct) rs \<and> (\<forall>r\<in>set rs. destinationAccount r \<noteq> None)"
    by (rule Cons.IH)
  ultimately show ?case by simp
qed

lemma populated_requests_payments:
  "populated_requests (db\<lparr>db_payments := ps\<rparr>) invoice = populated_requests db invoice"
  by (auto simp: populated_requests_def populate_request_def split: option.splits)

lemma prepare_pendingTransfers:
  assumes "prepare env userId body db = Inr c"
  shows "pp_pendingTransfers c
           = map (pending_transfer_of (body_percentOfInvoice body)) (populated_requests db (pp_invoice c))
             @ tip_transfer db c"
    and "\<forall>r\<in>set (populated_requests db (pp_invoice c)). destinationAccount r \<noteq> None"
proof -
  from assms obtain t trs a t' where
    b: "build_pendingTransfers (body_percentOfInvoice body) (SERVICE_FEE_PERCENT env) (Num 0, [], Map.empty)
          (populated_requests db (pp_invoice c)) = Inr (t, trs, a)" and
    tip: "add_tip_transfer (pp_payment c) (db_users db (i_serviceProvider (pp_invoice c))) (t, trs)
          = Inr (t', pp_pendingTransfers c)"
    by (auto simp: prepare_def Let_def populated_requests_payments invoice_serviceProvider_def
             split: sum.splits prod.splits)
  from b have trs: "trs = [] @ map (pending_transfer_of (body_percentOfInvoice body)) (populated_requests db (pp_invoice c)) \<and>
                    (\<forall>r\<in>set (populated_requests db (pp_invoice c)). destinationAccount r \<noteq> None)"
    by (rule build_pendingTransfers_Inr)
  then show "\<forall>r\<in>set (populated_requests db (pp_invoice c)). destinationAccount r \<noteq> None" by simp
  from trs tip show "pp_pendingTransfers c
           = map (pending_transfer_of (body_percentOfInvoice body)) (populated_requests db (pp_invoice c))
             @ tip_transfer db c"
    by (auto simp: add_tip_transfer_def tip_transfer_def split: if_splits option.splits)
qed

lemma prepare_has_destination:
  assumes "prepare env userId body db = Inr c"
  shows "\<forall>x\<in>set (zip [0 ..< length (pp_pendingTransfers c)] (pp_pendingTransfers c)). has_destination x"
proof
  fix x assume "x \<in> set (zip [0 ..< length (pp_pendingTransfers c)] (pp_pendingTransfers c))"
  then have mem: "snd x \<in> set (pp_pendingTransfers c)" by (metis set_zip_rightD prod.collapse)
  show "has_destination x"
  proof (cases "snd (snd x)")
    case None
    then show ?thesis by (simp add: has_destination_def)
  next
    case (Some r)
    with mem have "(fst (snd x), Some r) \<in> set (pp_pendingTransfers c)"
      by (metis prod.collapse)
    then have "r \<in> set (populated_requests db (pp_invoice c))"
      by (auto simp: prepare_pendingTransfers(1) [OF assms] pending_transfer_of_def tip_transfer_def
               split: if_splits)
    with prepare_pendingTransfers(2) [OF assms] Some show ?thesis
      by (simp add: has_destination_def)
  qed
qed

section \<open>A charge that succeeds\<close>

text \<open>The populated invoice and the stored documents.\<close>

lemma users_resolve_iff:
  "users_resolve db ivc =
     (invoice_serviceProvider db ivc \<noteq> None \<and> invoice_trainer db ivc \<noteq> None \<and>
      \<not> sendPushNotification_throws (getPayingUsers db ivc))"
  by (simp add: users_resolve_def invoice_serviceProvider_def invoice_trainer_def
        sendPushNotification_throws_def getPayingUsers_def list.pred_map comp_def)

lemma references_resolve_iff:
  "references_resolve db ivc = (users_resolve db ivc \<and> invoice_horse db ivc \<noteq> None)"
  by (cases "i_horse ivc") (simp_all add: references_resolve_def invoice_horse_def)

text \<open>
  The report of a failed payout of a transfer with a destination throws exactly when
  one of the users it reads is gone.
\<close>

lemma round_throws_leaves_loop:
  assumes "has_destination x"
  shows "round_throws env cid db ivc x = leaves_loop env cid db ivc x"
proof -
  obtain k pt request where x: "x = (k, pt, request)" by (cases x)
  have mails: "\<exists>mails. payout_failure_emails env sp request = Inr mails" for sp
    using assms x
    by (auto simp: has_destination_def payout_failure_emails_def destinationAccount_def
             split: option.splits)
  have "snd (payout_failure_report env db ivc request) = (\<not> users_resolve db ivc)"
  proof (cases "invoice_serviceProvider db ivc")
    case None
    then show ?thesis by (simp add: payout_failure_report_def users_resolve_iff)
  next
    case (Some sp)
    note sp = this
    show ?thesis
    proof (cases "invoice_trainer db ivc")
      case None
      with sp show ?thesis by (simp add: payout_failure_report_def users_resolve_iff)
    next
      case (Some tr)
      from mails [of sp] obtain ms where "payout_failure_emails env sp request = Inr ms" by blast
      with sp Some show ?thesis by (simp add: payout_failure_report_def users_resolve_iff)
    qed
  qed
  then show ?thesis by (simp add: round_throws_def leaves_loop_def x)
qed

lemma rounds_run_cong:
  "\<forall>x\<in>set xs. f x = g x \<Longrightarrow> rounds_run f xs = rounds_run g xs"
  by (induction xs) simp_all

text \<open>With every reference of the invoice resolved, no round of the payout loop throws.\<close>

lemma resolved_round:
  assumes "references_resolve db ivc" and "has_destination x"
  shows "\<not> round_throws env cid db ivc x"
  using assms by (simp add: round_throws_leaves_loop leaves_loop_def references_resolve_iff)

lemma process_transfers_run:
  assumes "prepare env userId body db = Inr c"
  shows "p_transactions (ts_payment (process_transfers env body cid (pp_db c) (pp_invoice c) (pp_payment c) (pp_pendingTransfers c)))
           = map (transaction_for env body cid)
               (take (rounds_run (round_throws env cid (pp_db c) (pp_invoice c))
                        (zip [0 ..< length (pp_pendingTransfers c)] (pp_pendingTransfers c)))
                  (zip [0 ..< length (pp_pendingTransfers c)] (pp_pendingTransfers c)))"
    and "ts_failedPayoutCount (process_transfers env body cid (pp_db c) (pp_invoice c) (pp_payment c) (pp_pendingTransfers c))
           = length (filter (transfer_throws env cid)
               (take (rounds_run (round_throws env cid (pp_db c) (pp_invoice c))
                        (zip [0 ..< length (pp_pendingTransfers c)] (pp_pendingTransfers c)))
                  (zip [0 ..< length (pp_pendingTransfers c)] (pp_pendingTransfers c))))"
    and "ts_thrown (process_transfers env body cid (pp_db c) (pp_invoice c) (pp_payment c) (pp_pendingTransfers c))
           = (\<exists>x\<in>set (zip [0 ..< length (pp_pendingTransfers c)] (pp_pendingTransfers c)).
                round_throws env cid (pp_db c) (pp_invoice c) x)"
proof -
  let ?st = "\<lparr> ts_payment = pp_payment c, ts_failedPayoutCount = 0, ts_emails = [], ts_thrown = False \<rparr>"
  let ?xs = "zip [0 ..< length (pp_pendingTransfers c)] (pp_pendingTransfers c)"
  have start: "\<not> ts_thrown ?st" by simp
  have dest: "\<forall>x\<in>set ?xs. has_destination x" using assms by (rule prepare_has_destination)
  from assms have "new_payment env userId body = Inr (pp_payment c)" by (rule prepare_Inr)
  then have empty: "p_transactions (pp_payment c) = []" by (rule new_payment_Inr)
  note fold = process_transfer_fold [OF start dest, of env body cid "pp_db c" "pp_invoice c"]
  from fold empty show
    "p_transactions (ts_payment (process_transfers env body cid (pp_db c) (pp_invoice c) (pp_payment c) (pp_pendingTransfers c)))
           = map (transaction_for env body cid) (take (rounds_run (round_throws env cid (pp_db c) (pp_invoice c)) ?xs) ?xs)"
    by (simp add: process_transfers_def)
  from fold show
    "ts_failedPayoutCount (process_transfers env body cid (pp_db c) (pp_invoice c) (pp_payment c) (pp_pendingTransfers c))
           = length (filter (transfer_throws env cid) (take (rounds_run (round_throws env cid (pp_db c) (pp_invoice c)) ?xs) ?xs))"
    by (simp add: process_transfers_def)
  from fold show
    "ts_thrown (process_transfers env body cid (pp_db c) (pp_invoice c) (pp_payment c) (pp_pendingTransfers c))
           = (\<exists>x\<in>set ?xs. round_throws env cid (pp_db c) (pp_invoice c) x)"
    by (simp add: process_transfers_def)
qed

lemma references_resolve_cong:
  assumes "db_users db' = db_users db" and "db_horses db' = db_horses db"
    and "i_serviceProvider i' = i_serviceProvider i" and "i_trainer i' = i_trainer i"
    and "i_horse i' = i_horse i" and "i_payingUsers i' = i_payingUsers i"
    and "i_paymentApprovals i' = i_paymentApprovals i"
  shows "references_resolve db' i' = references_resolve db i"
  using assms
  by (cases "i_horse i") (simp_all add: references_resolve_def users_resolve_def)

lemma emailInvoiceReceipt_resolved:
  assumes "references_resolve db ivc"
  shows "\<exists>mails. emailInvoiceReceipt db ivc = Inr mails"
  using assms
  by (auto simp: emailInvoiceReceipt_def references_resolve_iff users_resolve_iff)

lemma settle_invoice_fields:
  "i_id (settle_invoice env body ivc db) = i_id ivc"
  "i_payingUsers (settle_invoice env body ivc db) = i_payingUsers ivc"
  "i_paymentApprovals (settle_invoice env body ivc db) = i_paymentApprovals ivc"
  "i_serviceProvider (settle_invoice env body ivc db) = i_serviceProvider ivc"
  "i_trainer (settle_invoice env body ivc db) = i_trainer ivc"
  "i_horse (settle_invoice env body ivc db) = i_horse ivc"
  "i_paidInFullAt (settle_invoice env body ivc db) =
     (if length (payments_of_invoice db (pb_invoice body)) = length (i_payingUsers ivc)
      then Some (env_now env) else i_paidInFullAt ivc)"
  by (simp_all add: settle_invoice_def Let_def)


lemma after_transfers_resolved:
  assumes refs: "references_resolve db ivc"
    and re: "list_all (\<lambda>reassignee. amounts (u_id reassignee) \<noteq> None) (invoice_reassignees db ivc)"
  shows "snd (snd (after_transfers env userId body ivc payingUser amounts db)) = None"
proof -
  define db1 where "db1 = (if u_id payingUser \<noteq> userId
              then db\<lparr>db_notifications := db_notifications db @ [[u_id payingUser]]\<rparr> else db)"
  define invoice2 where "invoice2 = settle_invoice env body ivc db1"
  define db2 where "db2 = db1\<lparr>db_invoices := invoice_save (db_invoices db1) invoice2\<rparr>"
  have users: "db_users db1 = db_users db" and horses: "db_horses db1 = db_horses db"
    by (simp_all add: db1_def)
  have "references_resolve db2 invoice2 = references_resolve db ivc"
    by (rule references_resolve_cong) (simp_all add: db2_def invoice2_def users horses settle_invoice_fields)
  with refs obtain mails where mails: "emailInvoiceReceipt db2 invoice2 = Inr mails"
    using emailInvoiceReceipt_resolved by blast
  from refs users have sp: "invoice_serviceProvider db1 ivc \<noteq> None"
    by (simp add: references_resolve_iff users_resolve_iff invoice_serviceProvider_def)
  from re users have re1: "list_all (\<lambda>reassignee. amounts (u_id reassignee) \<noteq> None) (invoice_reassignees db1 ivc)"
    by (simp add: invoice_reassignees_def)
  have "after_transfers env userId body ivc payingUser amounts db =
          (if i_paidInFullAt invoice2 = None then (db2, invoice2, None)
           else (db2\<lparr>db_emails := db_emails db2 @ mails\<rparr>, invoice2, None))"
    unfolding after_transfers_def Let_def db1_def [symmetric]
    using sp re1 mails by (auto simp: invoice2_def [symmetric] db2_def [symmetric])
  then show ?thesis by simp
qed



lemma respond_response:
  "snd (respond env ivc p n db) =
     (if n > 0 then Status200 payouts_failed_message p
      else if i_paidInFullAt ivc \<noteq> None then Status200 ''Invoice paid in full'' p
      else Status200 ''Payment successful'' p)"
  by (simp add: respond_def)


text \<open>
  With every reference of the invoice resolved, and an amount to tell every
  reassignee of the invoice, the call does not end in the rollback.
\<close>

lemma create_charged_resolved:
  assumes prep: "prepare env userId body db = Inr c"
    and charge: "charges_create env (chargeObj c) (pb_uuid body) = Charge cid fm"
    and ok: "\<not> truthy fm"
    and refs: "references_resolve db (pp_invoice c)"
    and re: "list_all (\<lambda>reassignee. pp_reasigneeTransferAmounts c (u_id reassignee) \<noteq> None)
               (invoice_reassignees db (pp_invoice c))"
  shows "create env userId body db
           = respond env
               (fst (snd (after_transfers env userId body (pp_invoice c) (pp_payingUser c) (pp_reasigneeTransferAmounts c)
                  ((pp_db c)\<lparr> db_payments := save_after_payouts (db_payments (pp_db c)) (pp_pendingTransfers c)
                        (ts_payment (process_transfers env body cid (pp_db c) (pp_invoice c) (pp_payment c) (pp_pendingTransfers c))),
                     db_emails := db_emails (pp_db c) @
                        ts_emails (process_transfers env body cid (pp_db c) (pp_invoice c) (pp_payment c) (pp_pendingTransfers c)) \<rparr>))))
               (ts_payment (process_transfers env body cid (pp_db c) (pp_invoice c) (pp_payment c) (pp_pendingTransfers c)))
               (length (filter (transfer_throws env cid)
                  (zip [0 ..< length (pp_pendingTransfers c)] (pp_pendingTransfers c))))
               (fst (after_transfers env userId body (pp_invoice c) (pp_payingUser c) (pp_reasigneeTransferAmounts c)
                  ((pp_db c)\<lparr> db_payments := save_after_payouts (db_payments (pp_db c)) (pp_pendingTransfers c)
                        (ts_payment (process_transfers env body cid (pp_db c) (pp_invoice c) (pp_payment c) (pp_pendingTransfers c))),
                     db_emails := db_emails (pp_db c) @
                        ts_emails (process_transfers env body cid (pp_db c) (pp_invoice c) (pp_payment c) (pp_pendingTransfers c)) \<rparr>)))"
    and "p_transactions (ts_payment (process_transfers env body cid (pp_db c) (pp_invoice c) (pp_payment c) (pp_pendingTransfers c)))
           = map (transaction_for env body cid) (zip [0 ..< length (pp_pendingTransfers c)] (pp_pendingTransfers c))"
proof -
  let ?xs = "zip [0 ..< length (pp_pendingTransfers c)] (pp_pendingTransfers c)"
  let ?st = "process_transfers env body cid (pp_db c) (pp_invoice c) (pp_payment c) (pp_pendingTransfers c)"
  let ?db1 = "(pp_db c)\<lparr> db_payments := save_after_payouts (db_payments (pp_db c)) (pp_pendingTransfers c)
                                              (ts_payment ?st),
                           db_emails := db_emails (pp_db c) @ ts_emails ?st \<rparr>"
  let ?at = "after_transfers env userId body (pp_invoice c) (pp_payingUser c)
               (pp_reasigneeTransferAmounts c) ?db1"
  from prep have db1: "pp_db c = db\<lparr>db_payments := db_payments db @ [pp_payment c]\<rparr>"
    by (rule prepare_Inr)
  have refs_c: "references_resolve (pp_db c) (pp_invoice c)"
    using refs by (subst references_resolve_cong [of _ db _ "pp_invoice c"]) (simp_all add: db1)
  have none: "\<forall>x\<in>set ?xs. \<not> round_throws env cid (pp_db c) (pp_invoice c) x"
    using prepare_has_destination [OF prep] resolved_round [OF refs_c] by blast
  then have all: "rounds_run (round_throws env cid (pp_db c) (pp_invoice c)) ?xs = length ?xs"
    by (rule rounds_run_all)
  from none have nt: "\<not> ts_thrown ?st" by (simp add: process_transfers_run(3) [OF prep])
  from all show txs: "p_transactions (ts_payment ?st) = map (transaction_for env body cid) ?xs"
    by (simp add: process_transfers_run(1) [OF prep])
  from all have count: "ts_failedPayoutCount ?st = length (filter (transfer_throws env cid) ?xs)"
    by (simp add: process_transfers_run(2) [OF prep])
  have refs1: "references_resolve ?db1 (pp_invoice c)"
    using refs by (subst references_resolve_cong [of _ db _ "pp_invoice c"]) (simp_all add: db1)
  have re1: "list_all (\<lambda>reassignee. pp_reasigneeTransferAmounts c (u_id reassignee) \<noteq> None)
               (invoice_reassignees ?db1 (pp_invoice c))"
    using re by (simp add: invoice_reassignees_def db1)
  have "snd (snd ?at) = None" using refs1 re1 by (rule after_transfers_resolved)
  then have at: "?at = (fst ?at, fst (snd ?at), None)" by (metis prod.collapse)
  have "create env userId body db =
     (case ?at of
        (db2, invoice', Some err) \<Rightarrow> charge_failed env invoice' (ts_payment ?st) err db2
      | (db2, invoice', None) \<Rightarrow> respond env invoice' (ts_payment ?st) (ts_failedPayoutCount ?st) db2)"
    using charge_and_pay_charged [OF charge ok, of userId] prep nt
    by (simp add: create_def Let_def)
  also have "\<dots> = respond env (fst (snd ?at)) (ts_payment ?st) (ts_failedPayoutCount ?st) (fst ?at)"
    by (subst at) simp
  finally show "create env userId body db
           = respond env (fst (snd ?at)) (ts_payment ?st) (length (filter (transfer_throws env cid) ?xs)) (fst ?at)"
    by (simp only: count)
qed

section \<open>The share of each request\<close>





section \<open>One transaction per payout\<close>

lemma transaction_for_fields:
  "t_transactionType (transaction_for env body cid (k, pt, Some r)) = ''request''"
  "t_request (transaction_for env body cid (k, pt, Some r)) = Some (r_id (pr_doc r))"
  "t_transactionType (transaction_for env body cid (k, pt, None)) = ''tip''"
  "t_request (transaction_for env body cid (k, pt, None)) = None"
  "t_transactionId (transaction_for env body cid (k, pt, request)) = cid"
  "t_transferId (transaction_for env body cid (k, pt, request)) = transferToken env cid k pt"
  by (simp_all add: transaction_for_def transaction_of_def split: option.splits)

text \<open>
  C6. When the handler has reached the charge and the charge has succeeded, the payout
  loop appends one transaction to the payment for every pending transfer it
  processes, in order, whether the transfer resolved or threw. It processes all of
  them unless a round leaves the loop: the transfer throws and the report of the
  failure throws in turn, because the service provider or the trainer of the invoice,
  one of its paying users or one of its approvers is gone. Then it has processed the
  pending transfers up to and including that round. The transaction of a transfer
  with a request has type 'request' and names the request, that of the tip has type
  'tip' and no request; each carries the id of the charge; its \<open>transferId\<close> is the
  id of the transfer, and empty when the transfer threw.
\<close>

theorem payout_transactions:
  assumes "prepare env userId body db = Inr c"
  shows "p_transactions (ts_payment (process_transfers env body chargeId (pp_db c) (pp_invoice c) (pp_payment c)
                                       (pp_pendingTransfers c)))
           = map (transaction_for env body chargeId)
               (take (rounds_run (leaves_loop env chargeId db (pp_invoice c))
                        (zip [0 ..< length (pp_pendingTransfers c)] (pp_pendingTransfers c)))
                  (zip [0 ..< length (pp_pendingTransfers c)] (pp_pendingTransfers c))) \<and>
         rounds_run (leaves_loop env chargeId db (pp_invoice c))
           (zip [0 ..< length (pp_pendingTransfers c)] (pp_pendingTransfers c)) \<le> length (pp_pendingTransfers c) \<and>
         (pp_pendingTransfers c \<noteq> []
            \<longrightarrow> 0 < rounds_run (leaves_loop env chargeId db (pp_invoice c))
                      (zip [0 ..< length (pp_pendingTransfers c)] (pp_pendingTransfers c))) \<and>
         (ts_thrown (process_transfers env body chargeId (pp_db c) (pp_invoice c) (pp_payment c) (pp_pendingTransfers c))
            = (\<not> users_resolve db (pp_invoice c) \<and>
               (\<exists>x\<in>set (zip [0 ..< length (pp_pendingTransfers c)] (pp_pendingTransfers c)).
                  transfer_throws env chargeId x))) \<and>
         ((\<forall>x\<in>set (zip [0 ..< length (pp_pendingTransfers c)] (pp_pendingTransfers c)).
              \<not> transfer_throws env chargeId x)
            \<longrightarrow> rounds_run (leaves_loop env chargeId db (pp_invoice c))
                  (zip [0 ..< length (pp_pendingTransfers c)] (pp_pendingTransfers c))
                = length (pp_pendingTransfers c)) \<and>
         (users_resolve db (pp_invoice c)
            \<longrightarrow> rounds_run (leaves_loop env chargeId db (pp_invoice c))
                  (zip [0 ..< length (pp_pendingTransfers c)] (pp_pendingTransfers c))
                = length (pp_pendingTransfers c)) \<and>
         t_transactionType (transaction_for env body chargeId (k, pendingTransfer, Some requestObj)) = ''request'' \<and>
         t_request (transaction_for env body chargeId (k, pendingTransfer, Some requestObj)) = Some (r_id (pr_doc requestObj)) \<and>
         t_transactionType (transaction_for env body chargeId (k, pendingTransfer, None)) = ''tip'' \<and>
         t_request (transaction_for env body chargeId (k, pendingTransfer, None)) = None \<and>
         t_transactionId (transaction_for env body chargeId (k, pendingTransfer, request)) = chargeId \<and>
         (transfers_create env k (pendingTransfer\<lparr>pt_source_transaction := Some chargeId\<rparr>) = None
            \<longrightarrow> t_transferId (transaction_for env body chargeId (k, pendingTransfer, request)) = []) \<and>
         (transfers_create env k (pendingTransfer\<lparr>pt_source_transaction := Some chargeId\<rparr>) = Some transferId
            \<longrightarrow> t_transferId (transaction_for env body chargeId (k, pendingTransfer, request)) = transferId)"
proof -
  let ?xs = "zip [0 ..< length (pp_pendingTransfers c)] (pp_pendingTransfers c)"
  let ?n = "rounds_run (leaves_loop env chargeId db (pp_invoice c)) ?xs"
  from assms have db1: "pp_db c = db\<lparr>db_payments := db_payments db @ [pp_payment c]\<rparr>"
    by (rule prepare_Inr)
  have users: "users_resolve (pp_db c) (pp_invoice c) = users_resolve db (pp_invoice c)"
    by (simp add: users_resolve_def db1)
  have dest: "\<forall>x\<in>set ?xs. has_destination x" using assms by (rule prepare_has_destination)
  then have same: "\<forall>x\<in>set ?xs. round_throws env chargeId (pp_db c) (pp_invoice c) x
                                = leaves_loop env chargeId db (pp_invoice c) x"
    by (simp add: round_throws_leaves_loop leaves_loop_def users)
  then have n: "rounds_run (round_throws env chargeId (pp_db c) (pp_invoice c)) ?xs = ?n"
    by (rule rounds_run_cong)
  have txs: "p_transactions (ts_payment (process_transfers env body chargeId (pp_db c) (pp_invoice c) (pp_payment c)
                                           (pp_pendingTransfers c)))
               = map (transaction_for env body chargeId) (take ?n ?xs)"
    using process_transfers_run(1) [OF assms, of chargeId] by (simp only: n)
  have "ts_thrown (process_transfers env body chargeId (pp_db c) (pp_invoice c) (pp_payment c) (pp_pendingTransfers c))
            = (\<exists>x\<in>set ?xs. round_throws env chargeId (pp_db c) (pp_invoice c) x)"
    using assms by (rule process_transfers_run)
  also have "\<dots> = (\<exists>x\<in>set ?xs. leaves_loop env chargeId db (pp_invoice c) x)"
    using same by blast
  also have "\<dots> = (\<not> users_resolve db (pp_invoice c) \<and> (\<exists>x\<in>set ?xs. transfer_throws env chargeId x))"
    by (auto simp: leaves_loop_def)
  finally have thrown:
    "ts_thrown (process_transfers env body chargeId (pp_db c) (pp_invoice c) (pp_payment c) (pp_pendingTransfers c))
       = (\<not> users_resolve db (pp_invoice c) \<and> (\<exists>x\<in>set ?xs. transfer_throws env chargeId x))" .
  have le: "?n \<le> length (pp_pendingTransfers c)"
    using rounds_run_le [of "leaves_loop env chargeId db (pp_invoice c)" ?xs] by simp
  have pos: "pp_pendingTransfers c \<noteq> [] \<longrightarrow> 0 < ?n"
    using rounds_run_pos [of ?xs "leaves_loop env chargeId db (pp_invoice c)"] by simp
  have quiet: "(\<forall>x\<in>set ?xs. \<not> transfer_throws env chargeId x) \<longrightarrow> ?n = length (pp_pendingTransfers c)"
    using rounds_run_all [of ?xs "leaves_loop env chargeId db (pp_invoice c)"] by (simp add: leaves_loop_def)
  have resolved: "users_resolve db (pp_invoice c) \<longrightarrow> ?n = length (pp_pendingTransfers c)"
    using rounds_run_all [of ?xs "leaves_loop env chargeId db (pp_invoice c)"] by (simp add: leaves_loop_def)
  show ?thesis
    by (intro conjI impI txs le thrown)
       (use pos quiet resolved in \<open>simp_all add: transaction_for_fields transferToken_def\<close>)
qed

lemma example_references_resolve:
  "references_resolve (example_invoice_db payers paid ps) (example_invoice [\<lparr>o_user = 7, percentage = Num 100\<rparr>] paid)"
  by (simp add: references_resolve_def users_resolve_def example_invoice_db_def example_invoice_def
        example_users_def)

lemma example_orphan_prepare:
  "prepare (example_env charge transfers) 7 (example_payment_body 7 (Num 100)) example_orphan_db
     = Inr ((example_prepared None)
              \<lparr> pp_invoice := (example_invoice [\<lparr>o_user = 7, percentage = Num 100\<rparr>] None)\<lparr> i_trainer := 77 \<rparr>,
                pp_db := example_orphan_db\<lparr>db_payments := [example_new_payment]\<rparr> \<rparr>)"
  by (simp add: prepare_example_defs example_orphan_db_def example_prepared_def example_new_payment_def
        example_pendingTransfers_def)

text \<open>
  Two runs of the loop on the pending transfers of the example, the transfer of the
  request and that of the tip. In the first the transfer of the request resolves and
  that of the tip throws: two transactions. In the second the trainer of the invoice is
  gone and the transfer of the request throws: the loop ends with the one transaction
  of that round.
\<close>

theorem payout_transactions_witness:
  "map t_transactionType
     (p_transactions (ts_payment (process_transfers (example_env (Charge ''ch_1'' None) (\<lambda>k. if k = 0 then Some ''tr_0'' else None))
        (example_payment_body 7 (Num 100)) ''ch_1'' (pp_db (example_prepared None)) (pp_invoice (example_prepared None))
        example_new_payment example_pendingTransfers)))
     = [''request'', ''tip''] \<and>
   map t_transferId
     (p_transactions (ts_payment (process_transfers (example_env (Charge ''ch_1'' None) (\<lambda>k. if k = 0 then Some ''tr_0'' else None))
        (example_payment_body 7 (Num 100)) ''ch_1'' (pp_db (example_prepared None)) (pp_invoice (example_prepared None))
        example_new_payment example_pendingTransfers)))
     = [''tr_0'', []] \<and>
   \<not> ts_thrown (process_transfers (example_env (Charge ''ch_1'' None) (\<lambda>k. if k = 0 then Some ''tr_0'' else None))
        (example_payment_body 7 (Num 100)) ''ch_1'' (pp_db (example_prepared None)) (pp_invoice (example_prepared None))
        example_new_payment example_pendingTransfers) \<and>
   map t_transactionType
     (p_transactions (ts_payment (process_transfers (example_env (Charge ''ch_1'' None) (\<lambda>k. None))
        (example_payment_body 7 (Num 100)) ''ch_1'' (example_orphan_db\<lparr>db_payments := [example_new_payment]\<rparr>)
        ((example_invoice [\<lparr>o_user = 7, percentage = Num 100\<rparr>] None)\<lparr> i_trainer := 77 \<rparr>)
        example_new_payment example_pendingTransfers)))
     = [''request''] \<and>
   ts_thrown (process_transfers (example_env (Charge ''ch_1'' None) (\<lambda>k. None))
        (example_payment_body 7 (Num 100)) ''ch_1'' (example_orphan_db\<lparr>db_payments := [example_new_payment]\<rparr>)
        ((example_invoice [\<lparr>o_user = 7, percentage = Num 100\<rparr>] None)\<lparr> i_trainer := 77 \<rparr>)
        example_new_payment example_pendingTransfers)"
proof -
  let ?env = "example_env (Charge ''ch_1'' None) (\<lambda>k. if k = 0 then Some ''tr_0'' else None)"
  let ?env' = "example_env (Charge ''ch_1'' None) (\<lambda>k. None)"
  let ?body = "example_payment_body 7 (Num 100)"
  let ?db = "example_invoice_db [\<lparr>o_user = 7, percentage = Num 100\<rparr>] None []"
  let ?c = "example_prepared None"
  let ?orphan = "(example_invoice [\<lparr>o_user = 7, percentage = Num 100\<rparr>] None)\<lparr> i_trainer := 77 \<rparr>"
  let ?c' = "(example_prepared None)
               \<lparr> pp_invoice := ?orphan, pp_db := example_orphan_db\<lparr>db_payments := [example_new_payment]\<rparr> \<rparr>"
  let ?pt0 = "fst (example_pendingTransfers ! 0)"
  let ?pt1 = "fst (example_pendingTransfers ! 1)"
  let ?r = "\<lparr> pr_doc = example_request 2 None,
              pr_serviceProvider = Some (example_user 9 ''Bob'' ''service provider''),
              pr_reassignedTo = None \<rparr>"
  have prep: "prepare ?env 7 ?body ?db = Inr ?c" by (rule example_prepare_eq)
  have prep': "prepare ?env' 7 ?body example_orphan_db = Inr ?c'" by (rule example_orphan_prepare)
  have c: "pp_pendingTransfers ?c = example_pendingTransfers" "pp_payment ?c = example_new_payment"
    "pp_pendingTransfers ?c' = example_pendingTransfers" "pp_payment ?c' = example_new_payment"
    "pp_invoice ?c' = ?orphan" "pp_db ?c' = example_orphan_db\<lparr>db_payments := [example_new_payment]\<rparr>"
    by (simp_all add: example_prepared_def)
  have zipped: "zip [0 ..< length example_pendingTransfers] example_pendingTransfers
                  = [(0, ?pt0, Some ?r), (1, ?pt1, None)]"
    by (simp add: example_pendingTransfers_def upt_rec)
  have len: "length example_pendingTransfers = 2" by (simp add: example_pendingTransfers_def)
  have users: "users_resolve ?db (pp_invoice ?c)"
    using example_references_resolve [of "[\<lparr>o_user = 7, percentage = Num 100\<rparr>]" None "[]"]
    by (simp add: example_prepared_def references_resolve_def)
  have gone: "\<not> users_resolve example_orphan_db ?orphan"
    by (simp add: users_resolve_def example_orphan_db_def example_invoice_db_def example_users_def)
  have t0: "transfers_create ?env 0 (?pt0\<lparr>pt_source_transaction := Some ''ch_1''\<rparr>) = Some ''tr_0''"
    by (simp add: example_env_def)
  have t1: "transfers_create ?env 1 (?pt1\<lparr>pt_source_transaction := Some ''ch_1''\<rparr>) = None"
    by (simp add: example_env_def)
  have t0': "transfer_throws ?env' ''ch_1'' (0, ?pt0, Some ?r)"
    by (simp add: transfer_throws_def example_env_def)
  from payout_transactions [OF prep, where chargeId = "''ch_1''" and k = 0 and pendingTransfer = ?pt0
                              and requestObj = ?r and request = "Some ?r" and transferId = "''tr_0''"]
       payout_transactions [OF prep, where chargeId = "''ch_1''" and k = 1 and pendingTransfer = ?pt1
                              and requestObj = ?r and request = None and transferId = "''tr_0''"]
       users t0 t1 len zipped c
  have first: "map t_transactionType
     (p_transactions (ts_payment (process_transfers ?env ?body ''ch_1'' (pp_db ?c) (pp_invoice ?c)
        example_new_payment example_pendingTransfers))) = [''request'', ''tip''] \<and>
   map t_transferId
     (p_transactions (ts_payment (process_transfers ?env ?body ''ch_1'' (pp_db ?c) (pp_invoice ?c)
        example_new_payment example_pendingTransfers))) = [''tr_0'', []] \<and>
   \<not> ts_thrown (process_transfers ?env ?body ''ch_1'' (pp_db ?c) (pp_invoice ?c)
        example_new_payment example_pendingTransfers)"
    by auto
  from payout_transactions [OF prep', where chargeId = "''ch_1''" and k = 0 and pendingTransfer = ?pt0
                              and requestObj = ?r and request = "Some ?r" and transferId = "''tr_0''"]
       gone t0' zipped c
  have second: "map t_transactionType
     (p_transactions (ts_payment (process_transfers ?env' ?body ''ch_1''
        (example_orphan_db\<lparr>db_payments := [example_new_payment]\<rparr>) ?orphan
        example_new_payment example_pendingTransfers))) = [''request''] \<and>
   ts_thrown (process_transfers ?env' ?body ''ch_1''
        (example_orphan_db\<lparr>db_payments := [example_new_payment]\<rparr>) ?orphan
        example_new_payment example_pendingTransfers)"
    by (auto simp: leaves_loop_def)
  from first second show ?thesis by blast
qed

section \<open>Payouts that fail\<close>

text \<open>
  Where every reference of the invoice resolves and every reassignee of the invoice
  has an amount to be told, a charge that has succeeded with a payout that has failed
  is answered with status 200 and 'Your payment has been submitted, but it may not
  have reached its final payee(s). Please contact HorseLinc.', and the payment carries
  one transaction per pending transfer.
\<close>

lemma resolved_failed_payout_answers_200:
  assumes prep: "prepare env userId body db = Inr c"
    and charge: "charges_create env (chargeObj c) (pb_uuid body) = Charge chargeId failure_message"
    and ok: "\<not> truthy failure_message"
    and refs: "references_resolve db (pp_invoice c)"
    and re: "list_all (\<lambda>reassignee. pp_reasigneeTransferAmounts c (u_id reassignee) \<noteq> None)
               (invoice_reassignees db (pp_invoice c))"
    and k: "k < length (pp_pendingTransfers c)"
    and throws: "transfers_create env k ((fst (pp_pendingTransfers c ! k))\<lparr>pt_source_transaction := Some chargeId\<rparr>) = None"
  shows "snd (create env userId body db)
           = Status200 ''Your payment has been submitted, but it may not have reached its final payee(s). Please contact HorseLinc.''
               ((pp_payment c)\<lparr> p_transactions :=
                   map (transaction_for env body chargeId)
                     (zip [0 ..< length (pp_pendingTransfers c)] (pp_pendingTransfers c)) \<rparr>)"
proof -
  let ?xs = "zip [0 ..< length (pp_pendingTransfers c)] (pp_pendingTransfers c)"
  let ?st = "process_transfers env body chargeId (pp_db c) (pp_invoice c) (pp_payment c) (pp_pendingTransfers c)"
  note run = create_charged_resolved [OF prep charge ok refs re]
  from k have "(k, pp_pendingTransfers c ! k) \<in> set ?xs"
    by (auto simp: set_zip intro!: exI [of _ k])
  moreover from throws have "transfer_throws env chargeId (k, pp_pendingTransfers c ! k)"
    by (cases "pp_pendingTransfers c ! k") (simp add: transfer_throws_def)
  ultimately have "filter (transfer_throws env chargeId) ?xs \<noteq> []"
    by (auto simp: filter_empty_conv)
  then have failed: "0 < length (filter (transfer_throws env chargeId) ?xs)" by simp
  have pay: "ts_payment ?st = (pp_payment c)\<lparr> p_transactions := map (transaction_for env body chargeId) ?xs \<rparr>"
    by (subst process_transfers_same_payment) (simp add: run(2))
  from run(1) failed have "snd (create env userId body db) = Status200 payouts_failed_message (ts_payment ?st)"
    by (simp add: respond_response)
  then show ?thesis by (simp add: pay payouts_failed_message_def)
qed

text \<open>The definitions that evaluate a call of create on the example data.\<close>

lemmas create_example_defs =
  create_def prepare_example_defs example_payment_def
  charge_and_pay_def chargeObj_def process_transfers_def process_transfer_def transaction_of_def
  payout_failure_report_def payout_failure_emails_def invoice_trainer_def invoice_horse_def
  getPayingUsers_def invoice_reassignees_def sendPushNotification_throws_def
  save_after_payouts_def payment_save_def payment_remove_def after_transfers_def settle_invoice_def
  payments_of_invoice_def invoice_save_def emailInvoiceReceipt_def respond_def charge_failed_def
  error_message_def mark_request_paid_def request_save_def example_horse_def payouts_failed_message_def

text \<open>
  C7. The trainer of invoice 5 is gone. Ann pays the invoice, the charge succeeds
  (\<open>stripe.charges.create\<close> resolves to charge \<open>ch_1\<close> without a failure message),
  and the first transfer throws. The report of the failed payout reads the name of the
  trainer, which throws out of the payout loop into the \<open>catch\<close> of the charge: the
  answer is an error, and the payment is removed, although the customer has been
  charged. With the trainer there, the same call is answered with status 200, the
  cautionary message and the payment with its two transactions.
\<close>

theorem failed_payout_rolls_back_without_trainer:
  "db_users example_orphan_db 77 = None \<and>
   map_option i_trainer (db_invoices example_orphan_db 5) = Some 77 \<and>
   snd (create (example_env (Charge ''ch_1'' None) (\<lambda>k. None)) 7 (example_payment_body 7 (Num 100)) example_orphan_db)
     = RespondWithError ''TypeError'' \<and>
   db_payments (fst (create (example_env (Charge ''ch_1'' None) (\<lambda>k. None)) 7 (example_payment_body 7 (Num 100))
                       example_orphan_db)) = [] \<and>
   map e_subject (db_emails (fst (create (example_env (Charge ''ch_1'' None) (\<lambda>k. None)) 7
                                    (example_payment_body 7 (Num 100)) example_orphan_db)))
     = [''Stripe Charge Failure''] \<and>
   (case snd (create (example_env (Charge ''ch_1'' None) (\<lambda>k. None)) 7 (example_payment_body 7 (Num 100))
                (example_invoice_db [\<lparr>o_user = 7, percentage = Num 100\<rparr>] None [])) of
      Status200 message payment \<Rightarrow>
        message = ''Your payment has been submitted, but it may not have reached its final payee(s). Please contact HorseLinc.'' \<and>
        map t_transferId (p_transactions payment) = [[], []]
    | _ \<Rightarrow> False)"
  by (simp add: create_example_defs example_orphan_db_def example_prepared_def example_new_payment_def
        example_pendingTransfers_def)

section \<open>When an invoice is marked paid in full\<close>



text \<open>
  The rollback after a charge that succeeded: invoice 5 names no horse, Ann pays it in
  full and every transfer resolves. The receipt of the paid invoice reads the name of
  the horse, which throws into the \<open>catch\<close> of the charge: the answer is an error,
  the payment is removed and \<open>paidInFullAt\<close> is null again.
\<close>

lemma paid_invoice_without_horse_rolls_back:
  "snd (create (example_env (Charge ''ch_1'' None) (\<lambda>k. Some ''tr'')) 7 (example_payment_body 7 (Num 100))
          ((example_invoice_db [\<lparr>o_user = 7, percentage = Num 100\<rparr>] None [])
             \<lparr> db_invoices := [5 \<mapsto> (example_invoice [\<lparr>o_user = 7, percentage = Num 100\<rparr>] None)\<lparr> i_horse := None \<rparr>] \<rparr>))
     = RespondWithError ''TypeError'' \<and>
   db_payments (fst (create (example_env (Charge ''ch_1'' None) (\<lambda>k. Some ''tr'')) 7 (example_payment_body 7 (Num 100))
          ((example_invoice_db [\<lparr>o_user = 7, percentage = Num 100\<rparr>] None [])
             \<lparr> db_invoices := [5 \<mapsto> (example_invoice [\<lparr>o_user = 7, percentage = Num 100\<rparr>] None)\<lparr> i_horse := None \<rparr>] \<rparr>)))
     = [] \<and>
   map_option i_paidInFullAt
     (db_invoices (fst (create (example_env (Charge ''ch_1'' None) (\<lambda>k. Some ''tr'')) 7 (example_payment_body 7 (Num 100))
          ((example_invoice_db [\<lparr>o_user = 7, percentage = Num 100\<rparr>] None [])
             \<lparr> db_invoices := [5 \<mapsto> (example_invoice [\<lparr>o_user = 7, percentage = Num 100\<rparr>] None)\<lparr> i_horse := None \<rparr>] \<rparr>))) 5)
     = Some None"
  by (simp add: create_example_defs)


end
